theory Spec2Isabelle
  imports Main
begin

section \<open>JavaScript values\<close>

text \<open>
  A string of the program is written here as its UTF-8 encoding, one \<open>char\<close> per byte.
  A JavaScript number as the configuration sees it after \<open>parseInt\<close> or from the
  configuration file is an integer or \<open>NaN\<close>.  An integer beyond the exact range of the
  source's numbers stands for the rounded value (or \<open>Infinity\<close>) the source has there:
  positive all the same, and above every delay a timer accepts.
\<close>

datatype jsnum = NaN | Num int

text \<open>The comparison \<open>x > 0\<close>: false for \<open>NaN\<close>.\<close>

fun gt_zero :: "jsnum \<Rightarrow> bool" where
  "gt_zero NaN = False"
| "gt_zero (Num n) = (0 < n)"

text \<open>
  A value of a setting or of a command-line flag: \<open>null\<close>, a boolean, a number, a
  string, or an object (the array of a repeated flag, the object of a dotted one).  A
  number and an object are carried by the text \<open>String\<close> prints for them (\<open>1\<close> for the
  flag \<open>1.0\<close>, \<open>1e+21\<close>, \<open>0.5\<close>, \<open>a,b\<close> for an array), which is all the program ever
  reads of them.
\<close>

datatype jsval = VNull | VBool bool | VNum string | VStr string | VObj string

text \<open>Truthiness (\<open>if (v)\<close>): \<open>null\<close>, \<open>false\<close>, zero, \<open>NaN\<close> and the empty string are
  falsy; every object is truthy.\<close>

definition truthy_str :: "string \<Rightarrow> bool" where
  "truthy_str s = (s \<noteq> [])"

fun truthy :: "jsval \<Rightarrow> bool" where
  "truthy VNull = False"
| "truthy (VBool b) = b"
| "truthy (VNum s) = (s \<noteq> ''0'' \<and> s \<noteq> ''NaN'')"
| "truthy (VStr s) = truthy_str s"
| "truthy (VObj s) = True"

text \<open>Truthiness of an environment variable (a string, or not defined) and of a flag (a
  value, or \<open>undefined\<close>).\<close>

fun truthy_env :: "string option \<Rightarrow> bool" where
  "truthy_env None = False"
| "truthy_env (Some s) = truthy_str s"

fun truthy_arg :: "jsval option \<Rightarrow> bool" where
  "truthy_arg None = False"
| "truthy_arg (Some v) = truthy v"

text \<open>\<open>String(v)\<close>, as a template literal and \<open>parseInt\<close> apply it.\<close>

fun to_string :: "jsval \<Rightarrow> string" where
  "to_string VNull = ''null''"
| "to_string (VBool b) = (if b then ''true'' else ''false'')"
| "to_string (VNum s) = s"
| "to_string (VStr s) = s"
| "to_string (VObj s) = s"

text \<open>The exceptions that occur: an HTTP client error carries the status of the response
  when there was one.\<close>

datatype js_error =
    AxiosError "nat option" | FsError | TarError | GitError | TypeError | Error string

text \<open>
  White space as \<open>parseInt\<close> skips it: the white space and line terminator characters of
  the language, here in UTF-8.  Of one byte: tab, line feed, vertical tab, form feed,
  carriage return, space.  Of two bytes: U+00A0.  Of three bytes: U+1680, U+2000 to
  U+200A, U+2028, U+2029, U+202F, U+205F, U+3000 and U+FEFF.
\<close>

definition is_ws :: "char \<Rightarrow> bool" where
  "is_ws c = (c \<in> set [CHR '' '', CHR 0x09, CHR 0x0A, CHR 0x0B, CHR 0x0C, CHR 0x0D])"

definition is_ws2 :: "char \<Rightarrow> char \<Rightarrow> bool" where
  "is_ws2 a b = (a = CHR 0xC2 \<and> b = CHR 0xA0)"

definition is_ws3 :: "char \<Rightarrow> char \<Rightarrow> char \<Rightarrow> bool" where
  "is_ws3 a b c =
     ((a = CHR 0xE1 \<and> b = CHR 0x9A \<and> c = CHR 0x80) \<or>
      (a = CHR 0xE2 \<and> b = CHR 0x80 \<and>
         c \<in> set [CHR 0x80, CHR 0x81, CHR 0x82, CHR 0x83, CHR 0x84, CHR 0x85, CHR 0x86,
                  CHR 0x87, CHR 0x88, CHR 0x89, CHR 0x8A, CHR 0xA8, CHR 0xA9, CHR 0xAF]) \<or>
      (a = CHR 0xE2 \<and> b = CHR 0x81 \<and> c = CHR 0x9F) \<or>
      (a = CHR 0xE3 \<and> b = CHR 0x80 \<and> c = CHR 0x80) \<or>
      (a = CHR 0xEF \<and> b = CHR 0xBB \<and> c = CHR 0xBF))"

fun skip_ws :: "string \<Rightarrow> string" where
  "skip_ws (a # b # c # cs) =
     (if is_ws a then skip_ws (b # c # cs)
      else if is_ws2 a b then skip_ws (c # cs)
      else if is_ws3 a b c then skip_ws cs
      else a # b # c # cs)"
| "skip_ws [a, b] =
     (if is_ws a then skip_ws [b]
      else if is_ws2 a b then []
      else [a, b])"
| "skip_ws [a] = (if is_ws a then [] else [a])"
| "skip_ws [] = []"

text \<open>
  \<open>parseInt(s, 10)\<close>: leading white space is skipped, one sign is accepted, then the
  longest run of decimal digits is read; no digit gives \<open>NaN\<close>.
\<close>

definition is_digit :: "char \<Rightarrow> bool" where
  "is_digit c = (c \<in> set ''0123456789'')"

definition digit_val :: "char \<Rightarrow> int" where
  "digit_val c = int (of_char c) - 48"

definition digits_val :: "string \<Rightarrow> int" where
  "digits_val ds = foldl (\<lambda>a c. 10 * a + digit_val c) 0 ds"

definition strip_sign :: "string \<Rightarrow> bool \<times> string" where
  "strip_sign t =
     (case t of
        [] \<Rightarrow> (False, [])
      | c # r \<Rightarrow> if c = CHR ''-'' then (True, r)
                 else if c = CHR ''+'' then (False, r)
                 else (False, t))"

definition parseInt :: "string \<Rightarrow> jsnum" where
  "parseInt s =
     (let (neg, u) = strip_sign (skip_ws s);
          ds = takeWhile is_digit u
      in if ds = [] then NaN
         else Num (if neg then - digits_val ds else digits_val ds))"

text \<open>\<open>parseInt(v, 10)\<close> of a flag: the value is converted to a string first.\<close>

definition parseInt_arg :: "jsval \<Rightarrow> jsnum" where
  "parseInt_arg v = parseInt (to_string v)"

section \<open>Paths\<close>

text \<open>
  \<open>path.isAbsolute\<close> and \<open>path.resolve(cwd, p)\<close> on POSIX, for an absolute \<open>cwd\<close> and a
  relative \<open>p\<close>: the segments of both are normalised (\<open>.\<close> and empty segments dropped,
  \<open>..\<close> removing the segment before it) and joined below the root.  Both take strings;
  \<open>path.isAbsolute\<close> throws a \<open>TypeError\<close> on any other value.
\<close>

definition isAbsolute :: "string \<Rightarrow> bool" where
  "isAbsolute p = (case p of [] \<Rightarrow> False | c # _ \<Rightarrow> c = CHR ''/'')"

fun split_on :: "char \<Rightarrow> string \<Rightarrow> string list" where
  "split_on c [] = [[]]"
| "split_on c (x # xs) =
     (if x = c then [] # split_on c xs
      else (case split_on c xs of [] \<Rightarrow> [[x]] | s # ss \<Rightarrow> (x # s) # ss))"

definition norm_step :: "string list \<Rightarrow> string \<Rightarrow> string list" where
  "norm_step st seg =
     (if seg = [] \<or> seg = ''.'' then st
      else if seg = ''..'' then butlast st
      else st @ [seg])"

fun join_slash :: "string list \<Rightarrow> string" where
  "join_slash [] = []"
| "join_slash [s] = s"
| "join_slash (s # t # ss) = s @ CHR ''/'' # join_slash (t # ss)"

definition path_resolve :: "string \<Rightarrow> string \<Rightarrow> string" where
  "path_resolve cwd p =
     CHR ''/'' # join_slash (foldl norm_step [] (split_on CHR ''/'' cwd @ split_on CHR ''/'' p))"

section \<open>Configuration (src/config.js)\<close>

text \<open>The settings object.  The six settings that are meant to be strings hold whatever
  the layers put there.\<close>

record config =
  includeDir :: jsval
  gitUrl :: jsval
  gitRef :: jsval
  autoUpdateInterval :: jsnum
  dataDir :: jsval
  toolName :: jsval
  toolDescription :: jsval
  ignorePatterns :: "string list"
  enableBuildCleanup :: bool

text \<open>
  \<open>defaultConfig\<close>.  Its \<open>dataDir\<close> is the \<open>data\<close> directory of the installed package,
  an absolute path known only at run time: a parameter here.
\<close>

definition defaultConfig :: "string \<Rightarrow> config" where
  "defaultConfig pkgData =
     \<lparr> includeDir = VNull,
       gitUrl = VNull,
       gitRef = VStr ''main'',
       autoUpdateInterval = Num 0,
       dataDir = VStr pkgData,
       toolName = VStr ''search_docs'',
       toolDescription = VStr ''Search documentation using the probe search engine.'',
       ignorePatterns = [''node_modules'', ''.git'', ''dist'', ''build'', ''coverage''],
       enableBuildCleanup = True \<rparr>"

text \<open>
  The parsed configuration file: every key is present (\<open>Some v\<close>) or missing.  Its
  values are taken to have the types of the documented file format: strings, an integer
  interval, a list of patterns, a boolean; the two source keys may be \<open>null\<close>.
\<close>

record file_config =
  f_includeDir :: "string option option"
  f_gitUrl :: "string option option"
  f_gitRef :: "string option"
  f_autoUpdateInterval :: "int option"
  f_dataDir :: "string option"
  f_toolName :: "string option"
  f_toolDescription :: "string option"
  f_ignorePatterns :: "string list option"
  f_enableBuildCleanup :: "bool option"

text \<open>What is found at the configuration path: nothing, a file that cannot be read or
  parsed, or a JSON object.\<close>

datatype config_file = Absent | Malformed | Parsed file_config

text \<open>The environment variables read by \<open>loadConfig\<close> (\<open>None\<close>: not defined).\<close>

record env_vars =
  e_INCLUDE_DIR :: "string option"
  e_GIT_URL :: "string option"
  e_GIT_REF :: "string option"
  e_AUTO_UPDATE_INTERVAL :: "string option"
  e_DATA_DIR :: "string option"
  e_TOOL_NAME :: "string option"
  e_TOOL_DESCRIPTION :: "string option"

text \<open>
  The command-line flags read by \<open>loadConfig\<close>, as the argument parser hands them over
  (\<open>None\<close>: \<open>undefined\<close>): a string, a number for a numeric-looking argument, a boolean
  for a bare or negated flag, an array for a repeated flag.
\<close>

record cli_args =
  a_includeDir :: "jsval option"
  a_gitUrl :: "jsval option"
  a_gitRef :: "jsval option"
  a_autoUpdateInterval :: "jsval option"
  a_dataDir :: "jsval option"
  a_toolName :: "jsval option"
  a_toolDescription :: "jsval option"
  a_enableBuildCleanup :: "jsval option"

datatype config_log = LogLoaded | LogFileError | LogNoFile | WarnBothSources | WarnNoSource

text \<open>A value of the file as a setting.\<close>

fun of_nullable :: "string option \<Rightarrow> jsval" where
  "of_nullable None = VNull"
| "of_nullable (Some s) = VStr s"

text \<open>\<open>config = { ...config, ...fileConfig }\<close>: every key present in the file replaces
  the value so far.\<close>

definition spread_file :: "config \<Rightarrow> file_config \<Rightarrow> config" where
  "spread_file c f =
     \<lparr> includeDir = (case f_includeDir f of Some v \<Rightarrow> of_nullable v | None \<Rightarrow> includeDir c),
       gitUrl = (case f_gitUrl f of Some v \<Rightarrow> of_nullable v | None \<Rightarrow> gitUrl c),
       gitRef = (case f_gitRef f of Some v \<Rightarrow> VStr v | None \<Rightarrow> gitRef c),
       autoUpdateInterval =
         (case f_autoUpdateInterval f of Some n \<Rightarrow> Num n | None \<Rightarrow> autoUpdateInterval c),
       dataDir = (case f_dataDir f of Some v \<Rightarrow> VStr v | None \<Rightarrow> dataDir c),
       toolName = (case f_toolName f of Some v \<Rightarrow> VStr v | None \<Rightarrow> toolName c),
       toolDescription =
         (case f_toolDescription f of Some v \<Rightarrow> VStr v | None \<Rightarrow> toolDescription c),
       ignorePatterns = (case f_ignorePatterns f of Some v \<Rightarrow> v | None \<Rightarrow> ignorePatterns c),
       enableBuildCleanup =
         (case f_enableBuildCleanup f of Some v \<Rightarrow> v | None \<Rightarrow> enableBuildCleanup c) \<rparr>"

definition load_file :: "config \<Rightarrow> config_file \<Rightarrow> config \<times> config_log list" where
  "load_file c cf =
     (case cf of
        Absent \<Rightarrow> (c, [LogNoFile])
      | Malformed \<Rightarrow> (c, [LogFileError])
      | Parsed f \<Rightarrow> (spread_file c f, [LogLoaded]))"

text \<open>The seven \<open>if (process.env.X) config.x = process.env.X\<close> statements, in order.\<close>

definition apply_env :: "env_vars \<Rightarrow> config \<Rightarrow> config" where
  "apply_env e c0 =
     (let c1 = (case e_INCLUDE_DIR e of
                  Some v \<Rightarrow> if truthy_str v then c0\<lparr>includeDir := VStr v\<rparr> else c0 | None \<Rightarrow> c0);
          c2 = (case e_GIT_URL e of
                  Some v \<Rightarrow> if truthy_str v then c1\<lparr>gitUrl := VStr v\<rparr> else c1 | None \<Rightarrow> c1);
          c3 = (case e_GIT_REF e of
                  Some v \<Rightarrow> if truthy_str v then c2\<lparr>gitRef := VStr v\<rparr> else c2 | None \<Rightarrow> c2);
          c4 = (case e_AUTO_UPDATE_INTERVAL e of
                  Some v \<Rightarrow> if truthy_str v then c3\<lparr>autoUpdateInterval := parseInt v\<rparr> else c3
                | None \<Rightarrow> c3);
          c5 = (case e_DATA_DIR e of
                  Some v \<Rightarrow> if truthy_str v then c4\<lparr>dataDir := VStr v\<rparr> else c4 | None \<Rightarrow> c4);
          c6 = (case e_TOOL_NAME e of
                  Some v \<Rightarrow> if truthy_str v then c5\<lparr>toolName := VStr v\<rparr> else c5 | None \<Rightarrow> c5);
          c7 = (case e_TOOL_DESCRIPTION e of
                  Some v \<Rightarrow> if truthy_str v then c6\<lparr>toolDescription := VStr v\<rparr> else c6
                | None \<Rightarrow> c6)
      in c7)"

text \<open>The command-line overrides, in order.  The interval and the cleanup switch are
  applied whenever the flag is defined; the others when the flag is truthy.\<close>

definition cleanup_flag :: "jsval \<Rightarrow> bool" where
  "cleanup_flag v = (v = VBool True \<or> v = VStr ''true'')"

definition apply_args :: "cli_args \<Rightarrow> config \<Rightarrow> config" where
  "apply_args a c0 =
     (let c1 = (case a_includeDir a of
                  Some v \<Rightarrow> if truthy v then c0\<lparr>includeDir := v\<rparr> else c0 | None \<Rightarrow> c0);
          c2 = (case a_gitUrl a of
                  Some v \<Rightarrow> if truthy v then c1\<lparr>gitUrl := v\<rparr> else c1 | None \<Rightarrow> c1);
          c3 = (case a_gitRef a of
                  Some v \<Rightarrow> if truthy v then c2\<lparr>gitRef := v\<rparr> else c2 | None \<Rightarrow> c2);
          c4 = (case a_autoUpdateInterval a of
                  Some v \<Rightarrow> c3\<lparr>autoUpdateInterval := parseInt_arg v\<rparr> | None \<Rightarrow> c3);
          c5 = (case a_dataDir a of
                  Some v \<Rightarrow> if truthy v then c4\<lparr>dataDir := v\<rparr> else c4 | None \<Rightarrow> c4);
          c6 = (case a_toolName a of
                  Some v \<Rightarrow> if truthy v then c5\<lparr>toolName := v\<rparr> else c5 | None \<Rightarrow> c5);
          c7 = (case a_toolDescription a of
                  Some v \<Rightarrow> if truthy v then c6\<lparr>toolDescription := v\<rparr> else c6
                | None \<Rightarrow> c6);
          c8 = (case a_enableBuildCleanup a of
                  Some v \<Rightarrow> c7\<lparr>enableBuildCleanup := cleanup_flag v\<rparr> | None \<Rightarrow> c7)
      in c8)"

text \<open>The settings after the three override steps and before the path and source
  checks.\<close>

definition merged :: "string \<Rightarrow> cli_args \<Rightarrow> env_vars \<Rightarrow> config_file \<Rightarrow> config" where
  "merged pkgData a e cf = apply_args a (apply_env e (fst (load_file (defaultConfig pkgData) cf)))"

text \<open>
  Both paths are made absolute against the current directory.  \<open>path.isAbsolute\<close> is
  called on \<open>dataDir\<close> always and on \<open>includeDir\<close> when it is truthy, and throws when the
  value is not a string.
\<close>

definition absolutize_dataDir :: "string \<Rightarrow> config \<Rightarrow> js_error + config" where
  "absolutize_dataDir cwd c =
     (case dataDir c of
        VStr d \<Rightarrow> Inr (if \<not> isAbsolute d then c\<lparr>dataDir := VStr (path_resolve cwd d)\<rparr> else c)
      | _ \<Rightarrow> Inl TypeError)"

definition absolutize_includeDir :: "string \<Rightarrow> config \<Rightarrow> js_error + config" where
  "absolutize_includeDir cwd c =
     (if truthy (includeDir c) then
        (case includeDir c of
           VStr d \<Rightarrow>
             Inr (if \<not> isAbsolute d then c\<lparr>includeDir := VStr (path_resolve cwd d)\<rparr> else c)
         | _ \<Rightarrow> Inl TypeError)
      else Inr c)"

definition absolutize :: "string \<Rightarrow> config \<Rightarrow> js_error + config" where
  "absolutize cwd c0 =
     (case absolutize_dataDir cwd c0 of
        Inl err \<Rightarrow> Inl err
      | Inr c1 \<Rightarrow> absolutize_includeDir cwd c1)"

text \<open>The validation step: the repository wins over the directory, with one warning; no
  source at all gives another warning.\<close>

definition validate :: "config \<Rightarrow> config \<times> config_log list" where
  "validate c0 =
     (let (c1, l1) = (if truthy (includeDir c0) \<and> truthy (gitUrl c0)
                      then (c0\<lparr>includeDir := VNull\<rparr>, [WarnBothSources]) else (c0, []));
          l2 = (if \<not> truthy (includeDir c1) \<and> \<not> truthy (gitUrl c1) then [WarnNoSource] else [])
      in (c1, l1 @ l2))"

text \<open>\<open>loadConfig\<close>: what it logs, and the settings it returns or the exception it throws
  (which, thrown while the module loads, ends the process).\<close>

definition loadConfig ::
  "string \<Rightarrow> string \<Rightarrow> cli_args \<Rightarrow> env_vars \<Rightarrow> config_file \<Rightarrow>
     config_log list \<times> (js_error + config)" where
  "loadConfig pkgData cwd a e cf =
     (let (c0, l0) = load_file (defaultConfig pkgData) cf;
          c1 = apply_args a (apply_env e c0)
      in case absolutize cwd c1 of
           Inl err \<Rightarrow> (l0, Inl err)
         | Inr c2 \<Rightarrow> (let (c3, l3) = validate c2 in (l0 @ l3, Inr c3)))"

section \<open>Effects, errors and sequencing\<close>

text \<open>
  What the programs do to the outside world, in the order they do it.  An asynchronous
  call that is awaited is one event; whether it succeeds is read from a record of
  outcomes (the world).  Of the log lines only those that report an outcome are kept.
  \<open>GitClone url ref depth\<close> is a clone of one branch to the given depth; \<open>SetTimeout d\<close>
  is a timer armed to fire after \<open>d\<close> milliseconds.
\<close>

datatype event =
    EnsureDir | EmptyDir | ExistsSync | Readdir
  | DownloadAttempt string | HttpGet string | Extract
  | GitCheckIsRepo | GitClone jsval jsval nat
  | GitFetch | GitStatus | GitPull jsval
  | SetTimeout int | ClearTimeout nat | TimerFired
  | LogNotRepo | LogUpdated | LogUpToDate | LogUpdateError
  | WriteDefaultConfig | Glob | EnsureDirOf string | CopyFile string
  | LogCopied nat | LogCopyError | Cleanup | Chmod | LogBuildFinished | LogBuildFailed
  | Connect

type_synonym 'a io = "event list \<times> (js_error + 'a)"

text \<open>One awaited call.\<close>

definition eff :: "event \<Rightarrow> bool \<Rightarrow> js_error \<Rightarrow> unit io" where
  "eff ev ok err = ([ev], if ok then Inr () else Inl err)"

text \<open>\<open>await m; f\<close>: the rest runs only when \<open>m\<close> did not throw.\<close>

definition andThen :: "'a io \<Rightarrow> ('a \<Rightarrow> 'b io) \<Rightarrow> 'b io" where
  "andThen m f =
     (case m of
        (ev, Inl e) \<Rightarrow> (ev, Inl e)
      | (ev, Inr x) \<Rightarrow> (let (ev', r) = f x in (ev @ ev', r)))"

text \<open>\<open>try { m } catch (e) { h e }\<close>.\<close>

definition tryCatch :: "'a io \<Rightarrow> (js_error \<Rightarrow> 'a io) \<Rightarrow> 'a io" where
  "tryCatch m h =
     (case m of
        (ev, Inl e) \<Rightarrow> (let (ev', r) = h e in (ev @ ev', r))
      | (ev, Inr x) \<Rightarrow> (ev, Inr x))"

section \<open>Archive fetch\<close>

text \<open>
  The match of \<open>/github\.com\/([^/]+)\/([^/]+?)(\.git)?$/\<close>: at some position the text
  \<open>github.com/\<close>, an owner without slash, a slash, and a non-empty rest without slash up
  to the end of the string.  The lazy second group leaves a final \<open>.git\<close> to the third
  group when something remains before it.  The leftmost position that matches wins.
\<close>

definition strip_git :: "string \<Rightarrow> string" where
  "strip_git r =
     (if 4 < length r \<and> drop (length r - 4) r = ''.git'' then take (length r - 4) r else r)"

definition match_at :: "string \<Rightarrow> (string \<times> string) option" where
  "match_at t =
     (if take 11 t = ''github.com/'' then
        (let r = drop 11 t;
             owner = takeWhile (\<lambda>c. c \<noteq> CHR ''/'') r
         in case dropWhile (\<lambda>c. c \<noteq> CHR ''/'') r of
              [] \<Rightarrow> None
            | _ # rp \<Rightarrow>
                if owner \<noteq> [] \<and> rp \<noteq> [] \<and> CHR ''/'' \<notin> set rp
                then Some (owner, strip_git rp) else None)
      else None)"

fun github_match :: "string \<Rightarrow> (string \<times> string) option" where
  "github_match [] = None"
| "github_match (c # cs) =
     (case match_at (c # cs) of Some m \<Rightarrow> Some m | None \<Rightarrow> github_match cs)"

definition tarballUrl :: "string \<Rightarrow> string \<Rightarrow> string \<Rightarrow> string" where
  "tarballUrl owner repo currentRef =
     ''https://github.com/'' @ owner @ ''/'' @ repo @ ''/archive/'' @ currentRef @ ''.tar.gz''"

text \<open>What one download attempt meets: whether the directory can be emptied, what the
  server answers, and whether the archive unpacks.\<close>

datatype http_result = Response nat | NoResponse

record attempt =
  empty_ok :: bool
  http :: http_result
  extract_ok :: bool

text \<open>The request rejects unless the status is \<open>2xx\<close> (\<open>validateStatus\<close>); the error of a
  rejected response carries the status.\<close>

definition http_get :: "string \<Rightarrow> http_result \<Rightarrow> unit io" where
  "http_get url h =
     (case h of
        NoResponse \<Rightarrow> ([HttpGet url], Inl (AxiosError None))
      | Response s \<Rightarrow>
          if 200 \<le> s \<and> s < 300 then ([HttpGet url], Inr ())
          else ([HttpGet url], Inl (AxiosError (Some s))))"

text \<open>\<open>error.response && error.response.status === 404\<close>.\<close>

fun is_404 :: "js_error \<Rightarrow> bool" where
  "is_404 (AxiosError (Some s)) = (s = 404)"
| "is_404 _ = False"

text \<open>\<open>config.gitRef || 'main'\<close>.\<close>

definition start_ref :: "config \<Rightarrow> jsval" where
  "start_ref cfg = (if truthy (gitRef cfg) then gitRef cfg else VStr ''main'')"

subsection \<open>At server start (downloadAndExtractTarballRuntime)\<close>

definition downloadAttempt_rt :: "string \<Rightarrow> string \<Rightarrow> (string \<Rightarrow> attempt) \<Rightarrow> string \<Rightarrow> unit io" where
  "downloadAttempt_rt owner repo att currentRef =
     andThen ([DownloadAttempt currentRef], Inr ()) (\<lambda>_.
     andThen (eff EmptyDir (empty_ok (att currentRef)) FsError) (\<lambda>_.
     andThen (http_get (tarballUrl owner repo currentRef) (http (att currentRef))) (\<lambda>_.
     eff Extract (extract_ok (att currentRef)) TarError)))"

text \<open>The message of the error thrown when the retry fails too:
  \<open>Failed to download archive for both 'main' and 'master' refs.\<close>\<close>

definition both_refs_failed :: string where
  "both_refs_failed =
     ''Failed to download archive for both '' @ CHR 0x27 # ''main'' @ CHR 0x27 # '' and '' @
     CHR 0x27 # ''master'' @ CHR 0x27 # '' refs.''"

text \<open>\<open>config.gitUrl.match(...)\<close> is a call of a string method: on a value that is no
  string it throws a \<open>TypeError\<close>.  The ref appears in the URL and in the log as
  \<open>String\<close> prints it; \<open>ref === 'main'\<close> holds of the string \<open>main\<close> only.\<close>

definition downloadAndExtractTarballRuntime :: "config \<Rightarrow> (string \<Rightarrow> attempt) \<Rightarrow> unit io" where
  "downloadAndExtractTarballRuntime cfg att =
     (case gitUrl cfg of
        VStr u \<Rightarrow>
          (case github_match u of
             None \<Rightarrow> ([], Inl (Error ''Invalid or unsupported Git URL for tarball download.''))
           | Some (owner, repo) \<Rightarrow>
               tryCatch (downloadAttempt_rt owner repo att (to_string (start_ref cfg)))
                 (\<lambda>error.
                    if start_ref cfg = VStr ''main'' \<and> is_404 error then
                      tryCatch (downloadAttempt_rt owner repo att ''master'')
                        (\<lambda>retryError. ([], Inl (Error both_refs_failed)))
                    else ([], Inl error)))
      | _ \<Rightarrow> ([], Inl TypeError))"

section \<open>Git sync and the update timer (server)\<close>

text \<open>
  The process state of the server: the module variable \<open>updateTimer\<close> (a timer handle or
  \<open>null\<close>), the timers that are armed and have not fired (handle and delay), the next
  fresh handle, and whether \<open>git\<close> has been initialised.
\<close>

record proc =
  updateTimer :: "nat option"
  pending :: "(nat \<times> int) list"
  next_handle :: nat
  git :: bool

definition initial_proc :: proc where
  "initial_proc = \<lparr> updateTimer = None, pending = [], next_handle = 0, git = False \<rparr>"

text \<open>
  The delay a timer of the runtime is armed with: the delay asked for when it lies
  between 1 and \<open>2^31 - 1\<close> milliseconds, and 1 millisecond otherwise (also for \<open>NaN\<close>).
\<close>

definition TIMEOUT_MAX :: int where
  "TIMEOUT_MAX = 2147483647"

fun armed_delay :: "jsnum \<Rightarrow> int" where
  "armed_delay NaN = 1"
| "armed_delay (Num d) = (if 1 \<le> d \<and> d \<le> TIMEOUT_MAX then d else 1)"

text \<open>\<open>updateTimer = setTimeout(..., d)\<close> and \<open>clearTimeout(h)\<close>.\<close>

definition setTimeout :: "jsnum \<Rightarrow> proc \<Rightarrow> proc" where
  "setTimeout d st =
     st\<lparr> updateTimer := Some (next_handle st),
         pending := pending st @ [(next_handle st, armed_delay d)],
         next_handle := Suc (next_handle st) \<rparr>"

definition clearTimeout :: "nat \<Rightarrow> proc \<Rightarrow> proc" where
  "clearTimeout h st = st\<lparr> pending := filter (\<lambda>t. fst t \<noteq> h) (pending st) \<rparr>"

text \<open>\<open>config.autoUpdateInterval * 60 * 1000\<close>.\<close>

fun minutes_to_ms :: "jsnum \<Rightarrow> jsnum" where
  "minutes_to_ms NaN = NaN"
| "minutes_to_ms (Num n) = Num (n * 60 * 1000)"

text \<open>What one update cycle meets: the answer of \<open>checkIsRepo\<close> (\<open>None\<close>: it throws),
  whether the fetch works, how far behind the status reports the branch (\<open>None\<close>: it
  throws), and whether the pull works.\<close>

record cycle_env =
  c_isRepo :: "bool option"
  c_fetch_ok :: bool
  c_behind :: "int option"
  c_pull_ok :: bool

text \<open>The \<open>try\<close> block of \<open>checkForUpdates\<close>.\<close>

definition update_try :: "config \<Rightarrow> cycle_env \<Rightarrow> unit io" where
  "update_try cfg ce =
     (case c_isRepo ce of
        None \<Rightarrow> ([GitCheckIsRepo], Inl GitError)
      | Some False \<Rightarrow> ([GitCheckIsRepo, LogNotRepo], Inr ())
      | Some True \<Rightarrow>
          andThen ([GitCheckIsRepo], Inr ()) (\<lambda>_.
          andThen (eff GitFetch (c_fetch_ok ce) GitError) (\<lambda>_.
          (case c_behind ce of
             None \<Rightarrow> ([GitStatus], Inl GitError)
           | Some b \<Rightarrow>
               if 0 < b then
                 andThen ([GitStatus], Inr ()) (\<lambda>_.
                 andThen (eff (GitPull (gitRef cfg)) (c_pull_ok ce) GitError) (\<lambda>_.
                 ([LogUpdated], Inr ())))
               else ([GitStatus, LogUpToDate], Inr ())))))"

text \<open>\<open>checkForUpdates\<close>: the guard, then \<open>try\<close>/\<open>catch\<close>/\<open>finally\<close>.  The \<open>catch\<close> block
  logs and swallows the error; the \<open>finally\<close> block schedules the next check.\<close>

definition checkForUpdates :: "config \<Rightarrow> cycle_env \<Rightarrow> proc \<Rightarrow> event list \<times> proc" where
  "checkForUpdates cfg ce st =
     (if \<not> truthy (gitUrl cfg) \<or> \<not> git st then ([], st)
      else
        (let (ev, r) = tryCatch (update_try cfg ce) (\<lambda>error. ([LogUpdateError], Inr ()))
         in if gt_zero (autoUpdateInterval cfg)
            then (ev @ [SetTimeout (armed_delay (minutes_to_ms (autoUpdateInterval cfg)))],
                  setTimeout (minutes_to_ms (autoUpdateInterval cfg)) st)
            else (ev, st)))"


section \<open>Server start (run)\<close>

text \<open>What the start of the server meets.\<close>

record world =
  w_ensureDir_ok :: bool
  w_exists :: bool
  w_readdir :: "string list option"
  w_isRepo :: "bool option"
  w_emptyDir_ok :: bool
  w_clone_ok :: bool
  w_cycle :: cycle_env
  w_attempt :: "string \<Rightarrow> attempt"
  w_connect_ok :: bool

datatype outcome = Serving | Exited nat

text \<open>\<open>args.dataDir || args.gitUrl || args.includeDir || process.env.DATA_DIR ||
  process.env.GIT_URL || process.env.INCLUDE_DIR\<close>, as a condition.\<close>

definition runtimeOverride :: "cli_args \<Rightarrow> env_vars \<Rightarrow> bool" where
  "runtimeOverride a e =
     (truthy_arg (a_dataDir a) \<or> truthy_arg (a_gitUrl a) \<or> truthy_arg (a_includeDir a) \<or>
      truthy_env (e_DATA_DIR e) \<or> truthy_env (e_GIT_URL e) \<or> truthy_env (e_INCLUDE_DIR e))"

text \<open>The check for pre-built data: the value of \<open>usePrebuiltData\<close> after it.  A failing
  \<open>readdir\<close> is caught and leaves it false.\<close>

definition check_prebuilt :: "bool \<Rightarrow> world \<Rightarrow> event list \<times> bool" where
  "check_prebuilt override w =
     (if \<not> override then
        (if w_exists w then
           (case w_readdir w of
              None \<Rightarrow> ([ExistsSync, Readdir], False)
            | Some items \<Rightarrow> ([ExistsSync, Readdir], 0 < length items))
         else ([ExistsSync], False))
      else ([], False))"

text \<open>\<open>if (updateTimer) clearTimeout(updateTimer); updateTimer = null;\<close>\<close>

definition clear_timer :: "proc \<Rightarrow> event list \<times> proc" where
  "clear_timer st =
     (case updateTimer st of
        Some h \<Rightarrow> ([ClearTimeout h], (clearTimeout h st)\<lparr>updateTimer := None\<rparr>)
      | None \<Rightarrow> ([], st\<lparr>updateTimer := None\<rparr>))"

text \<open>The Git branch of the initialisation, taken when auto-update is enabled.  A failing
  clone exits the process; a throwing \<open>checkIsRepo\<close> reaches the outer \<open>catch\<close> of \<open>run\<close>,
  which exits as well.\<close>

definition init_git :: "config \<Rightarrow> world \<Rightarrow> proc \<Rightarrow> event list \<times> (nat + unit) \<times> proc" where
  "init_git cfg w st =
     (let st1 = st\<lparr>git := True\<rparr>
      in case w_isRepo w of
           None \<Rightarrow> ([GitCheckIsRepo], Inl 1, st1)
         | Some True \<Rightarrow>
             (let (ev, st2) = checkForUpdates cfg (w_cycle w) st1
              in (GitCheckIsRepo # ev, Inr (), st2))
         | Some False \<Rightarrow>
             (case andThen (eff EmptyDir (w_emptyDir_ok w) FsError) (\<lambda>_.
                     eff (GitClone (gitUrl cfg) (gitRef cfg) 1) (w_clone_ok w) GitError) of
                (ev, Inl cloneError) \<Rightarrow> (GitCheckIsRepo # ev, Inl 1, st1)
              | (ev, Inr _) \<Rightarrow>
                  (let (ev', st2) = checkForUpdates cfg (w_cycle w) st1
                   in (GitCheckIsRepo # ev @ ev', Inr (), st2))))"

text \<open>The archive branch, taken when auto-update is not enabled.\<close>

definition init_tarball :: "config \<Rightarrow> world \<Rightarrow> proc \<Rightarrow> event list \<times> (nat + unit) \<times> proc" where
  "init_tarball cfg w st =
     (case downloadAndExtractTarballRuntime cfg (w_attempt w) of
        (ev, Inl tarballError) \<Rightarrow> (ev, Inl 1, st)
      | (ev, Inr _) \<Rightarrow> (let (ev', st') = clear_timer st in (ev @ ev', Inr (), st')))"

text \<open>The initialisation of the content source: the \<open>if\<close> chain of \<open>run\<close>.\<close>

definition init_content ::
  "config \<Rightarrow> bool \<Rightarrow> bool \<Rightarrow> world \<Rightarrow> proc \<Rightarrow> event list \<times> (nat + unit) \<times> proc" where
  "init_content cfg override usePrebuiltData w st =
     (if usePrebuiltData then (let (ev, st') = clear_timer st in (ev, Inr (), st'))
      else if truthy (gitUrl cfg) then
        (if gt_zero (autoUpdateInterval cfg) then init_git cfg w st else init_tarball cfg w st)
      else if truthy (includeDir cfg) \<and> \<not> override then
        (let (ev, st') = clear_timer st in (ev, Inr (), st'))
      else if \<not> override then
        (let (ev, st') = clear_timer st in (ev, Inr (), st'))
      else ([], Inr (), st))"

definition run ::
  "config \<Rightarrow> cli_args \<Rightarrow> env_vars \<Rightarrow> world \<Rightarrow> proc \<Rightarrow> event list \<times> outcome \<times> proc" where
  "run cfg a e w st =
     (let override = runtimeOverride a e;
          (ev1, usePrebuiltData) = check_prebuilt override w;
          (ev2, r, st') = init_content cfg override usePrebuiltData w st
      in case r of
           Inl code \<Rightarrow> (ev1 @ ev2, Exited code, st')
         | Inr _ \<Rightarrow>
             (ev1 @ ev2 @ [Connect], if w_connect_ok w then Serving else Exited 1, st'))"

text \<open>The module as a whole: the data directory is ensured first (a failure exits), then
  the server runs from the initial state.\<close>

definition server_main ::
  "config \<Rightarrow> cli_args \<Rightarrow> env_vars \<Rightarrow> world \<Rightarrow> event list \<times> outcome \<times> proc" where
  "server_main cfg a e w =
     (if \<not> w_ensureDir_ok w then ([EnsureDir], Exited 1, initial_proc)
      else (let (ev, out, st) = run cfg a e w initial_proc in (EnsureDir # ev, out, st)))"

section \<open>Build (scripts/build.js)\<close>

text \<open>What the build meets.  \<open>b_glob\<close> is the list of files the glob call returns, the
  ignore rules already applied (\<open>None\<close>: it throws).\<close>

record build_world =
  b_config_exists :: bool
  b_write_ok :: bool
  b_ensureDir_ok :: bool
  b_emptyDir_ok :: bool
  b_clone_ok :: bool
  b_attempt :: "string \<Rightarrow> attempt"
  b_glob :: "string list option"
  b_mkdir_ok :: "string \<Rightarrow> bool"
  b_copy_ok :: "string \<Rightarrow> bool"
  b_cleanup_ok :: bool
  b_chmod_ok :: bool

datatype build_outcome = BuildFinished | BuildExited nat

definition cloneGitRepo :: "config \<Rightarrow> build_world \<Rightarrow> unit io" where
  "cloneGitRepo cfg w = eff (GitClone (gitUrl cfg) (gitRef cfg) 1) (b_clone_ok w) GitError"

definition fallbackToClone :: "config \<Rightarrow> build_world \<Rightarrow> unit io" where
  "fallbackToClone cfg w = tryCatch (cloneGitRepo cfg w) (\<lambda>cloneError. ([], Inl cloneError))"

text \<open>The loop of \<open>copyIncludedDir\<close>: the first failure ends it.\<close>

fun copy_files :: "build_world \<Rightarrow> string list \<Rightarrow> unit io" where
  "copy_files w [] = ([], Inr ())"
| "copy_files w (file # files) =
     andThen (eff (EnsureDirOf file) (b_mkdir_ok w file) FsError) (\<lambda>_.
     andThen (eff (CopyFile file) (b_copy_ok w file) FsError) (\<lambda>_.
     copy_files w files))"

definition copyIncludedDir :: "config \<Rightarrow> build_world \<Rightarrow> unit io" where
  "copyIncludedDir cfg w =
     tryCatch
       (case b_glob w of
          None \<Rightarrow> ([Glob], Inl FsError)
        | Some files \<Rightarrow>
            andThen ([Glob], Inr ()) (\<lambda>_.
            andThen (copy_files w files) (\<lambda>_.
            ([LogCopied (length files)], Inr ()))))
       (\<lambda>error. ([LogCopyError], Inl error))"

definition downloadAttempt_build :: "string \<Rightarrow> string \<Rightarrow> (string \<Rightarrow> attempt) \<Rightarrow> string \<Rightarrow> unit io" where
  "downloadAttempt_build owner repo att currentRef =
     andThen ([DownloadAttempt currentRef], Inr ()) (\<lambda>_.
     andThen (http_get (tarballUrl owner repo currentRef) (http (att currentRef))) (\<lambda>_.
     eff Extract (extract_ok (att currentRef)) TarError))"

definition downloadAndExtractTarball :: "config \<Rightarrow> build_world \<Rightarrow> unit io" where
  "downloadAndExtractTarball cfg w =
     (case gitUrl cfg of
        VStr u \<Rightarrow>
          (case github_match u of
             None \<Rightarrow> cloneGitRepo cfg w
           | Some (owner, repo) \<Rightarrow>
               tryCatch (downloadAttempt_build owner repo (b_attempt w) (to_string (start_ref cfg)))
                 (\<lambda>error.
                    if start_ref cfg = VStr ''main'' \<and> is_404 error then
                      tryCatch (downloadAttempt_build owner repo (b_attempt w) ''master'')
                        (\<lambda>retryError. fallbackToClone cfg w)
                    else fallbackToClone cfg w))
      | _ \<Rightarrow> ([], Inl TypeError))"

definition prepareDataDir :: "config \<Rightarrow> build_world \<Rightarrow> unit io" where
  "prepareDataDir cfg w =
     andThen (eff EnsureDir (b_ensureDir_ok w) FsError) (\<lambda>_.
     andThen (eff EmptyDir (b_emptyDir_ok w) FsError) (\<lambda>_.
     if truthy (gitUrl cfg) then
       (if gt_zero (autoUpdateInterval cfg) then cloneGitRepo cfg w
        else downloadAndExtractTarball cfg w)
     else if truthy (includeDir cfg) then copyIncludedDir cfg w
     else ([], Inr ())))"

definition createDefaultConfig :: "build_world \<Rightarrow> unit io" where
  "createDefaultConfig w =
     (if \<not> b_config_exists w then eff WriteDefaultConfig (b_write_ok w) FsError
      else ([], Inr ()))"

text \<open>The cleanup pass swallows the errors of single files; only its enumeration of the
  directory can fail.  It is one event here.\<close>

definition cleanupDataDir :: "build_world \<Rightarrow> unit io" where
  "cleanupDataDir w = eff Cleanup (b_cleanup_ok w) FsError"

definition build :: "config \<Rightarrow> build_world \<Rightarrow> event list \<times> build_outcome" where
  "build cfg w =
     (case
        andThen (createDefaultConfig w) (\<lambda>_.
        andThen (prepareDataDir cfg w) (\<lambda>_.
        andThen (if enableBuildCleanup cfg then cleanupDataDir w else ([], Inr ())) (\<lambda>_.
        andThen (eff Chmod (b_chmod_ok w) FsError) (\<lambda>_.
        ([LogBuildFinished], Inr ())))))
      of
        (ev, Inl error) \<Rightarrow> (ev @ [LogBuildFailed], BuildExited 1)
      | (ev, Inr _) \<Rightarrow> (ev, BuildFinished))"

section \<open>The tool handler (setupToolHandlers)\<close>

text \<open>A JSON value of a request; a number is carried by the text \<open>String\<close> prints for
  it.  \<open>undefined\<close> is \<open>None\<close> where a value is optional.\<close>

datatype json =
    JNull | JBool bool | JNum string | JStr string | JArr "json list"
  | JObj "(string \<times> json) list"

fun truthy_json :: "json option \<Rightarrow> bool" where
  "truthy_json None = False"
| "truthy_json (Some JNull) = False"
| "truthy_json (Some (JBool b)) = b"
| "truthy_json (Some (JNum n)) = (n \<noteq> ''0'')"
| "truthy_json (Some (JStr s)) = (s \<noteq> [])"
| "truthy_json (Some (JArr xs)) = True"
| "truthy_json (Some (JObj kvs)) = True"

text \<open>\<open>typeof v === 'object'\<close> (true for \<open>null\<close> as well).\<close>

fun typeof_object :: "json \<Rightarrow> bool" where
  "typeof_object JNull = True"
| "typeof_object (JArr xs) = True"
| "typeof_object (JObj kvs) = True"
| "typeof_object _ = False"

text \<open>\<open>args.query\<close>: the member of an object (the last one of that name, as the parser
  keeps it); \<open>undefined\<close> on anything else that reaches this point.\<close>

fun get_query :: "json \<Rightarrow> json option" where
  "get_query (JObj kvs) = map_of (rev kvs) ''query''"
| "get_query _ = None"

record call_request =
  r_name :: string
  r_arguments :: "json option"

record tool_response =
  content_text :: string
  isError :: bool

text \<open>A handler returns a response, or throws a protocol error, which the protocol
  layer answers with an error of its own.\<close>

datatype handler_result = Returns tool_response | Throws string

text \<open>The message of a protocol error of code \<open>MethodNotFound\<close>, as the protocol library
  builds it from the text it is given.\<close>

definition mcp_error_message :: "string \<Rightarrow> string" where
  "mcp_error_message msg = ''MCP error -32601: '' @ msg"

text \<open>\<open>executeDocsSearch\<close>: the search engine is a function of the data directory and the
  query that returns the text or fails with a message; a failure is thrown again as a
  protocol error.\<close>

definition executeDocsSearch ::
  "config \<Rightarrow> (jsval \<Rightarrow> json \<Rightarrow> string + string) \<Rightarrow> json \<Rightarrow> string + string" where
  "executeDocsSearch cfg search q =
     (case search (dataDir cfg) q of
        Inl msg \<Rightarrow> Inl (mcp_error_message (''Error executing docs search: '' @ msg))
      | Inr result \<Rightarrow> Inr result)"

text \<open>The \<open>try\<close> block of the handler: the message of the error thrown, or the result.\<close>

definition call_try ::
  "config \<Rightarrow> (jsval \<Rightarrow> json \<Rightarrow> string + string) \<Rightarrow> call_request \<Rightarrow> string + string" where
  "call_try cfg search req =
     (case r_arguments req of
        None \<Rightarrow> Inl ''Arguments must be an object''
      | Some args \<Rightarrow>
          if \<not> truthy_json (Some args) \<or> \<not> typeof_object args
          then Inl ''Arguments must be an object''
          else (case get_query args of
                  None \<Rightarrow> Inl ''Query is required in arguments''
                | Some q \<Rightarrow>
                    if \<not> truthy_json (Some q) then Inl ''Query is required in arguments''
                    else executeDocsSearch cfg search q))"

text \<open>The handler.  \<open>request.params.name !== config.toolName\<close> compares without
  conversion: a name, which is a string, differs from every tool name that is none.\<close>

definition callTool ::
  "config \<Rightarrow> (jsval \<Rightarrow> json \<Rightarrow> string + string) \<Rightarrow> call_request \<Rightarrow> handler_result" where
  "callTool cfg search req =
     (if VStr (r_name req) \<noteq> toolName cfg
      then Throws (mcp_error_message
                     (''Unknown tool: '' @ r_name req @ ''. Expected: '' @ to_string (toolName cfg)))
      else (case call_try cfg search req of
              Inr result \<Rightarrow> Returns \<lparr> content_text = result, isError = False \<rparr>
            | Inl message \<Rightarrow>
                Returns \<lparr> content_text = ''Error executing '' @ r_name req @ '': '' @ message,
                          isError = True \<rparr>))"

subsection \<open>The server around the handler\<close>

text \<open>
  The handler is registered with the request schema of the protocol library, which
  parses every request before the handler sees it: the arguments of a call must be
  missing or an object (not an array, not \<open>null\<close>).  A request that does not parse, like
  an exception of the handler, is answered with an error of the protocol; the process
  goes on.
\<close>

definition schema_ok :: "call_request \<Rightarrow> bool" where
  "schema_ok req =
     (case r_arguments req of None \<Rightarrow> True | Some (JObj kvs) \<Rightarrow> True | Some v \<Rightarrow> False)"

datatype reply = ToolResult tool_response | SchemaError | ProtocolError string

definition answer ::
  "config \<Rightarrow> (jsval \<Rightarrow> json \<Rightarrow> string + string) \<Rightarrow> call_request \<Rightarrow> reply" where
  "answer cfg search req =
     (if \<not> schema_ok req then SchemaError
      else (case callTool cfg search req of
              Returns r \<Rightarrow> ToolResult r
            | Throws msg \<Rightarrow> ProtocolError msg))"

text \<open>
  What reaches the running server: tool calls and the interrupt signal.  The handler of
  the signal clears the timer held in \<open>updateTimer\<close>, closes the server and exits with
  status 0; a process that has exited answers nothing.
\<close>

datatype message = Call call_request | Sigint

fun serve ::
  "config \<Rightarrow> (jsval \<Rightarrow> json \<Rightarrow> string + string) \<Rightarrow> message list \<Rightarrow> outcome \<times> proc \<Rightarrow>
     reply list \<times> (outcome \<times> proc)" where
  "serve cfg search [] s = ([], s)"
| "serve cfg search (m # ms) (Exited n, p) = ([], (Exited n, p))"
| "serve cfg search (Sigint # ms) (Serving, p) =
     ([], (Exited 0, (case updateTimer p of Some h \<Rightarrow> clearTimeout h p | None \<Rightarrow> p)))"
| "serve cfg search (Call req # ms) (Serving, p) =
     (let (rs, s) = serve cfg search ms (Serving, p) in (answer cfg search req # rs, s))"

section \<open>Observations on traces and example inputs\<close>

text \<open>The timers armed in a trace, and the number of update cycles started by a timer.\<close>

definition is_SetTimeout :: "event \<Rightarrow> bool" where
  "is_SetTimeout ev = (case ev of SetTimeout d \<Rightarrow> True | _ \<Rightarrow> False)"



text \<open>Example inputs: a repository checked every five minutes and one checked every
  thirty days, a cycle whose fetch fails, and a server process with one timer armed.\<close>

definition demo_config :: config where
  "demo_config =
     (defaultConfig ''/srv/pkg/data'')
       \<lparr> gitUrl := VStr ''https://github.com/acme/docs'', autoUpdateInterval := Num 5 \<rparr>"



definition armed_proc :: proc where
  "armed_proc = \<lparr> updateTimer = Some 0, pending = [(0, 300000)], next_handle = 1, git = True \<rparr>"

text \<open>Events that fetch or change content, or arm a timer.\<close>

fun is_acquisition :: "event \<Rightarrow> bool" where
  "is_acquisition (HttpGet u) = True"
| "is_acquisition (DownloadAttempt r) = True"
| "is_acquisition Extract = True"
| "is_acquisition EmptyDir = True"
| "is_acquisition (GitClone u r d) = True"
| "is_acquisition GitCheckIsRepo = True"
| "is_acquisition GitFetch = True"
| "is_acquisition GitStatus = True"
| "is_acquisition (GitPull r) = True"
| "is_acquisition (SetTimeout d) = True"
| "is_acquisition _ = False"

definition no_args :: cli_args where
  "no_args = \<lparr> a_includeDir = None, a_gitUrl = None, a_gitRef = None, a_autoUpdateInterval = None,
                a_dataDir = None, a_toolName = None, a_toolDescription = None,
                a_enableBuildCleanup = None \<rparr>"

definition no_env :: env_vars where
  "no_env = \<lparr> e_INCLUDE_DIR = None, e_GIT_URL = None, e_GIT_REF = None,
               e_AUTO_UPDATE_INTERVAL = None, e_DATA_DIR = None, e_TOOL_NAME = None,
               e_TOOL_DESCRIPTION = None \<rparr>"

definition ok_attempt :: attempt where
  "ok_attempt = \<lparr> empty_ok = True, http = Response 200, extract_ok = True \<rparr>"

definition ok_cycle :: cycle_env where
  "ok_cycle = \<lparr> c_isRepo = Some True, c_fetch_ok = True, c_behind = Some 0, c_pull_ok = True \<rparr>"

definition prebuilt_world :: world where
  "prebuilt_world =
     \<lparr> w_ensureDir_ok = True, w_exists = True, w_readdir = Some [''README.md''],
       w_isRepo = Some False, w_emptyDir_ok = True, w_clone_ok = True, w_cycle = ok_cycle,
       w_attempt = (\<lambda>r. ok_attempt), w_connect_ok = True \<rparr>"

text \<open>
  What one download attempt for a ref does, written out: the line that announces it,
  the emptying of the directory where the fetcher does that, the request unless the
  emptying failed, and the extraction when the request was answered with a \<open>2xx\<close>
  status.  The attempt succeeds when all of these do; it is answered 404 when the
  request is reached and the status is 404.
\<close>

definition status_ok :: "http_result \<Rightarrow> bool" where
  "status_ok h = (case h of Response s \<Rightarrow> 200 \<le> s \<and> s < 300 | NoResponse \<Rightarrow> False)"

definition attempt_events :: "bool \<Rightarrow> string \<Rightarrow> string \<Rightarrow> attempt \<Rightarrow> string \<Rightarrow> event list" where
  "attempt_events clears owner repo a r =
     DownloadAttempt r #
     (if clears then [EmptyDir] else []) @
     (if clears \<and> \<not> empty_ok a then []
      else HttpGet (tarballUrl owner repo r) # (if status_ok (http a) then [Extract] else []))"

definition attempt_succeeds :: "bool \<Rightarrow> attempt \<Rightarrow> bool" where
  "attempt_succeeds clears a =
     ((clears \<longrightarrow> empty_ok a) \<and> status_ok (http a) \<and> extract_ok a)"

definition answered_404 :: "bool \<Rightarrow> attempt \<Rightarrow> bool" where
  "answered_404 clears a = ((clears \<longrightarrow> empty_ok a) \<and> http a = Response 404)"

text \<open>The ref asked for is the default \<open>main\<close>: the setting is the string \<open>main\<close>, or it is
  falsy and the default is taken.\<close>

definition asks_main :: "jsval \<Rightarrow> bool" where
  "asks_main v = (v = VStr ''main'' \<or> \<not> truthy v)"

definition main_missing :: "string \<Rightarrow> attempt" where
  "main_missing r =
     (if r = ''main'' then \<lparr> empty_ok = True, http = Response 404, extract_ok = True \<rparr>
      else \<lparr> empty_ok = True, http = Response 200, extract_ok = True \<rparr>)"

definition both_missing :: "string \<Rightarrow> attempt" where
  "both_missing r = \<lparr> empty_ok = True, http = Response 404, extract_ok = True \<rparr>"

definition archive_config :: config where
  "archive_config =
     (defaultConfig ''/srv/pkg/data'')\<lparr> gitUrl := VStr ''https://github.com/acme/docs.git'' \<rparr>"

definition build_env :: "(string \<Rightarrow> attempt) \<Rightarrow> build_world" where
  "build_env att =
     \<lparr> b_config_exists = True, b_write_ok = True, b_ensureDir_ok = True, b_emptyDir_ok = True,
       b_clone_ok = True, b_attempt = att, b_glob = Some [], b_mkdir_ok = (\<lambda>f. True),
       b_copy_ok = (\<lambda>f. True), b_cleanup_ok = True, b_chmod_ok = True \<rparr>"



definition fetch_world :: "(string \<Rightarrow> attempt) \<Rightarrow> world" where
  "fetch_world att =
     \<lparr> w_ensureDir_ok = True, w_exists = True, w_readdir = Some [],
       w_isRepo = Some False, w_emptyDir_ok = True, w_clone_ok = True, w_cycle = ok_cycle,
       w_attempt = att, w_connect_ok = True \<rparr>"

text \<open>
  The data directory is emptied immediately before each download-and-extract request:
  leaving aside the log line that announces an attempt, every \<open>HttpGet\<close> of the trace
  comes right after an \<open>EmptyDir\<close>.
\<close>

definition is_HttpGet :: "event \<Rightarrow> bool" where
  "is_HttpGet ev = (case ev of HttpGet u \<Rightarrow> True | _ \<Rightarrow> False)"

definition is_DownloadAttempt :: "event \<Rightarrow> bool" where
  "is_DownloadAttempt ev = (case ev of DownloadAttempt r \<Rightarrow> True | _ \<Rightarrow> False)"

fun cleared_from :: "event \<Rightarrow> event list \<Rightarrow> bool" where
  "cleared_from prev [] = True"
| "cleared_from prev (x # xs) = ((if is_HttpGet x then prev = EmptyDir else True) \<and> cleared_from x xs)"

definition cleared_before_each :: "event list \<Rightarrow> bool" where
  "cleared_before_each tr =
     (case filter (\<lambda>ev. \<not> is_DownloadAttempt ev) tr of
        [] \<Rightarrow> True
      | x # xs \<Rightarrow> \<not> is_HttpGet x \<and> cleared_from x xs)"

text \<open>
  The layering of the specification.  An environment variable sets its field when it
  is defined and not empty, a flag when it is defined and truthy (the interval and the
  cleanup switch: when it is defined), the file when the key is present.  The value of
  a field is the one of the highest layer that sets it: command line, environment,
  file, default.
\<close>

definition set_str :: "string option \<Rightarrow> string option" where
  "set_str v = (case v of None \<Rightarrow> None | Some s \<Rightarrow> if s \<noteq> [] then Some s else None)"

definition set_env :: "string option \<Rightarrow> jsval option" where
  "set_env v = map_option VStr (set_str v)"

definition set_arg :: "jsval option \<Rightarrow> jsval option" where
  "set_arg v = (case v of None \<Rightarrow> None | Some x \<Rightarrow> if truthy x then Some x else None)"

definition from_file :: "(file_config \<Rightarrow> 'a option) \<Rightarrow> config_file \<Rightarrow> 'a option" where
  "from_file sel cf = (case cf of Parsed f \<Rightarrow> sel f | _ \<Rightarrow> None)"

definition layered :: "'a option \<Rightarrow> 'a option \<Rightarrow> 'a option \<Rightarrow> 'a \<Rightarrow> 'a" where
  "layered cli env file dflt =
     (case cli of
        Some v \<Rightarrow> v
      | None \<Rightarrow> (case env of
                   Some v \<Rightarrow> v
                 | None \<Rightarrow> (case file of Some v \<Rightarrow> v | None \<Rightarrow> dflt)))"

definition spec_merge :: "string \<Rightarrow> cli_args \<Rightarrow> env_vars \<Rightarrow> config_file \<Rightarrow> config" where
  "spec_merge pkgData a e cf =
     \<lparr> includeDir = layered (set_arg (a_includeDir a)) (set_env (e_INCLUDE_DIR e))
                      (map_option of_nullable (from_file f_includeDir cf)) VNull,
       gitUrl = layered (set_arg (a_gitUrl a)) (set_env (e_GIT_URL e))
                  (map_option of_nullable (from_file f_gitUrl cf)) VNull,
       gitRef = layered (set_arg (a_gitRef a)) (set_env (e_GIT_REF e))
                  (map_option VStr (from_file f_gitRef cf)) (VStr ''main''),
       autoUpdateInterval =
         layered (map_option parseInt_arg (a_autoUpdateInterval a))
           (map_option parseInt (set_str (e_AUTO_UPDATE_INTERVAL e)))
           (map_option Num (from_file f_autoUpdateInterval cf)) (Num 0),
       dataDir = layered (set_arg (a_dataDir a)) (set_env (e_DATA_DIR e))
                   (map_option VStr (from_file f_dataDir cf)) (VStr pkgData),
       toolName = layered (set_arg (a_toolName a)) (set_env (e_TOOL_NAME e))
                    (map_option VStr (from_file f_toolName cf)) (VStr ''search_docs''),
       toolDescription =
         layered (set_arg (a_toolDescription a)) (set_env (e_TOOL_DESCRIPTION e))
           (map_option VStr (from_file f_toolDescription cf))
           (VStr ''Search documentation using the probe search engine.''),
       ignorePatterns =
         layered None None (from_file f_ignorePatterns cf)
           [''node_modules'', ''.git'', ''dist'', ''build'', ''coverage''],
       enableBuildCleanup =
         layered (map_option cleanup_flag (a_enableBuildCleanup a)) None
           (from_file f_enableBuildCleanup cf) True \<rparr>"

text \<open>A directory setting that is a string, made absolute.\<close>

definition abs_dir :: "string \<Rightarrow> jsval \<Rightarrow> jsval" where
  "abs_dir cwd v =
     (case v of
        VStr p \<Rightarrow> if p \<noteq> [] \<and> \<not> isAbsolute p then VStr (path_resolve cwd p) else VStr p
      | _ \<Rightarrow> v)"

text \<open>The data directory, a string, made absolute.\<close>

definition abs_data :: "string \<Rightarrow> jsval \<Rightarrow> jsval" where
  "abs_data cwd v =
     (case v of
        VStr p \<Rightarrow> if \<not> isAbsolute p then VStr (path_resolve cwd p) else VStr p
      | _ \<Rightarrow> v)"

text \<open>\<open>typeof v === 'string'\<close>.\<close>

definition is_string :: "jsval \<Rightarrow> bool" where
  "is_string v = (case v of VStr s \<Rightarrow> True | _ \<Rightarrow> False)"

text \<open>Example inputs: \<open>--includeDir /docs\<close> and \<open>--includeDir 123\<close> on the command line,
  a file that sets a repository URL.\<close>

definition cli_docs :: cli_args where
  "cli_docs = no_args\<lparr> a_includeDir := Some (VStr ''/docs'') \<rparr>"


definition empty_file :: file_config where
  "empty_file =
     \<lparr> f_includeDir = None, f_gitUrl = None, f_gitRef = None, f_autoUpdateInterval = None,
       f_dataDir = None, f_toolName = None, f_toolDescription = None, f_ignorePatterns = None,
       f_enableBuildCleanup = None \<rparr>"

definition file_repo :: config_file where
  "file_repo = Parsed (empty_file\<lparr> f_gitUrl := Some (Some ''https://github.com/acme/docs'') \<rparr>)"

text \<open>The files for which the copy was called, and the log lines that report success.\<close>

definition copy_calls :: "event list \<Rightarrow> string list" where
  "copy_calls tr = concat (map (\<lambda>ev. case ev of CopyFile f \<Rightarrow> [f] | _ \<Rightarrow> []) tr)"

definition is_success_log :: "event \<Rightarrow> bool" where
  "is_success_log ev = (case ev of LogCopied n \<Rightarrow> True | LogBuildFinished \<Rightarrow> True | _ \<Rightarrow> False)"

definition file_ok :: "build_world \<Rightarrow> string \<Rightarrow> bool" where
  "file_ok w f = (b_mkdir_ok w f \<and> b_copy_ok w f)"

definition docs_config :: config where
  "docs_config = (defaultConfig ''/srv/pkg/data'')\<lparr> includeDir := VStr ''/tmp/mydocs'' \<rparr>"

definition copy_env :: build_world where
  "copy_env =
     (build_env both_missing)
       \<lparr> b_glob := Some [''a.md'', ''b.md'', ''c.md''], b_copy_ok := (\<lambda>f. f \<noteq> ''b.md'') \<rparr>"

text \<open>
  The arguments of a call lack a query: they are missing, or are an object without a
  member \<open>query\<close>.  They are no object: they are present and are a string, a number, a
  boolean, an array or \<open>null\<close>.
\<close>

fun lacks_query :: "json option \<Rightarrow> bool" where
  "lacks_query None = True"
| "lacks_query (Some (JObj kvs)) = (''query'' \<notin> set (map fst kvs))"
| "lacks_query (Some v) = False"

fun no_object :: "json option \<Rightarrow> bool" where
  "no_object None = False"
| "no_object (Some (JObj kvs)) = False"
| "no_object (Some v) = True"

definition echo_search :: "jsval \<Rightarrow> json \<Rightarrow> string + string" where
  "echo_search path q = Inr ''result text''"

definition empty_call :: call_request where
  "empty_call = \<lparr> r_name = ''search_docs'', r_arguments = Some (JObj []) \<rparr>"

definition good_call :: call_request where
  "good_call = \<lparr> r_name = ''search_docs'', r_arguments = Some (JObj [(''query'', JStr ''install'')]) \<rparr>"

definition string_call :: call_request where
  "string_call = \<lparr> r_name = ''search_docs'', r_arguments = Some (JStr ''install'') \<rparr>"

text \<open>
  A numeric string: an optional sign and decimal digits, nothing else.  A string without
  a leading integer: after white space and an optional sign it is empty or goes on with
  something that is not a digit.
\<close>

definition numeric_string :: "string \<Rightarrow> bool" where
  "numeric_string s = (snd (strip_sign s) \<noteq> [] \<and> list_all is_digit (snd (strip_sign s)))"

definition no_leading_digit :: "string \<Rightarrow> bool" where
  "no_leading_digit s =
     (case snd (strip_sign (skip_ws s)) of [] \<Rightarrow> True | c # rest \<Rightarrow> \<not> is_digit c)"

definition is_git_event :: "event \<Rightarrow> bool" where
  "is_git_event ev =
     (case ev of
        GitCheckIsRepo \<Rightarrow> True | GitClone u r d \<Rightarrow> True | GitFetch \<Rightarrow> True
      | GitStatus \<Rightarrow> True | GitPull r \<Rightarrow> True | _ \<Rightarrow> False)"

definition env_5min :: env_vars where
  "env_5min = no_env\<lparr> e_AUTO_UPDATE_INTERVAL := Some ''5min'' \<rparr>"

definition env_often :: env_vars where
  "env_often = no_env\<lparr> e_AUTO_UPDATE_INTERVAL := Some ''often'' \<rparr>"

section \<open>Sequencing lemmas\<close>

lemma tryCatch_fst:
  "fst (tryCatch m h) = (case snd m of Inl e \<Rightarrow> fst m @ fst (h e) | Inr x \<Rightarrow> fst m)"
  by (auto simp: tryCatch_def split: prod.splits sum.splits)

section \<open>The update cycle\<close>

lemma update_try_no_timer: "filter is_SetTimeout (fst (update_try cfg ce)) = []"
  by (auto simp: update_try_def andThen_def eff_def is_SetTimeout_def
      split: option.splits bool.splits)

lemma cycle_body_no_timer:
  "filter is_SetTimeout (fst (tryCatch (update_try cfg ce) (\<lambda>error. ([LogUpdateError], Inr ())))) = []"
  by (simp add: tryCatch_fst update_try_no_timer is_SetTimeout_def split: sum.splits)


lemma checkForUpdates_trace:
  assumes "truthy (gitUrl cfg)" "git st"
  shows "fst (checkForUpdates cfg ce st) =
           fst (tryCatch (update_try cfg ce) (\<lambda>error. ([LogUpdateError], Inr ()))) @
           (if gt_zero (autoUpdateInterval cfg)
            then [SetTimeout (armed_delay (minutes_to_ms (autoUpdateInterval cfg)))] else [])"
  using assms by (simp add: checkForUpdates_def split: prod.splits)

lemma checkForUpdates_timers:
  assumes "truthy (gitUrl cfg)" "git st"
  shows "filter is_SetTimeout (fst (checkForUpdates cfg ce st)) =
           (if gt_zero (autoUpdateInterval cfg)
            then [SetTimeout (armed_delay (minutes_to_ms (autoUpdateInterval cfg)))] else [])"
  by (simp add: checkForUpdates_trace [OF assms] cycle_body_no_timer is_SetTimeout_def)


lemma checkForUpdates_state:
  assumes "truthy (gitUrl cfg)" "git st"
  shows "snd (checkForUpdates cfg ce st) =
          (if gt_zero (autoUpdateInterval cfg) then setTimeout (minutes_to_ms (autoUpdateInterval cfg)) st else st)"
  using assms by (simp add: checkForUpdates_def split: prod.splits)





section \<open>The pre-built shortcut\<close>

lemma clear_timer_props:
  "filter is_acquisition (fst (clear_timer st)) = [] \<and>
   updateTimer (snd (clear_timer st)) = None \<and>
   pending (snd (clear_timer st)) =
     (case updateTimer st of None \<Rightarrow> pending st | Some h \<Rightarrow> filter (\<lambda>t. fst t \<noteq> h) (pending st))"
  by (simp add: clear_timer_def clearTimeout_def split: option.splits)

lemma run_prebuilt:
  assumes "\<not> runtimeOverride a e" "w_exists w" "w_readdir w = Some items" "items \<noteq> []"
  shows "run cfg a e w st =
           ([ExistsSync, Readdir] @ fst (clear_timer st) @ [Connect],
            if w_connect_ok w then Serving else Exited 1,
            snd (clear_timer st))"
  using assms
  by (simp add: run_def check_prebuilt_def init_content_def split: prod.splits)

text \<open>
  C2.  At server start with no runtime override of the content source (no truthy
  \<open>dataDir\<close>, \<open>gitUrl\<close> or \<open>includeDir\<close> flag and no truthy \<open>DATA_DIR\<close>, \<open>GIT_URL\<close> or
  \<open>INCLUDE_DIR\<close> variable) and with a data directory that exists and lists at least one
  entry, \<open>run\<close> downloads nothing, clones, fetches and pulls nothing, and arms no timer:
  a timer held in \<open>updateTimer\<close> is cleared and the variable is \<open>null\<close> afterwards.  The
  server goes on to connect its transport.  From the initial state of the process the
  whole start consists of ensuring the directory, looking at it, and connecting.
\<close>

theorem prebuilt_shortcut:
  assumes "\<not> runtimeOverride a e" and "w_exists w" and "w_readdir w = Some items" and "items \<noteq> []"
  shows "filter is_acquisition (fst (run cfg a e w st)) = [] \<and>
         fst (snd (run cfg a e w st)) = (if w_connect_ok w then Serving else Exited 1) \<and>
         updateTimer (snd (snd (run cfg a e w st))) = None \<and>
         pending (snd (snd (run cfg a e w st))) =
           (case updateTimer st of None \<Rightarrow> pending st
            | Some h \<Rightarrow> filter (\<lambda>t. fst t \<noteq> h) (pending st)) \<and>
         server_main cfg a e w =
           (if w_ensureDir_ok w
            then ([EnsureDir, ExistsSync, Readdir, Connect],
                  if w_connect_ok w then Serving else Exited 1, initial_proc)
            else ([EnsureDir], Exited 1, initial_proc))"
proof -
  note r = run_prebuilt [OF assms]
  have m: "clear_timer initial_proc = ([], initial_proc)"
    by (simp add: clear_timer_def initial_proc_def)
  show ?thesis
    using clear_timer_props [of st]
    by (simp add: r server_main_def m)
qed

theorem prebuilt_shortcut_witness:
  "\<not> runtimeOverride no_args no_env \<and> w_exists prebuilt_world \<and>
   w_readdir prebuilt_world = Some [''README.md''] \<and>
   server_main demo_config no_args no_env prebuilt_world =
     ([EnsureDir, ExistsSync, Readdir, Connect], Serving, initial_proc) \<and>
   filter is_acquisition (fst (run demo_config no_args no_env prebuilt_world armed_proc)) = [] \<and>
   pending (snd (snd (run demo_config no_args no_env prebuilt_world armed_proc))) = []"
proof -
  have h1: "\<not> runtimeOverride no_args no_env"
    by (simp add: runtimeOverride_def no_args_def no_env_def)
  have h2: "w_exists prebuilt_world" by (simp add: prebuilt_world_def)
  have h3: "w_readdir prebuilt_world = Some [''README.md'']" by (simp add: prebuilt_world_def)
  have h4: "[''README.md''] \<noteq> []" by simp
  have w: "w_ensureDir_ok prebuilt_world" "w_connect_ok prebuilt_world"
    by (simp_all add: prebuilt_world_def)
  show ?thesis
    using prebuilt_shortcut [OF h1 h2 h3 h4, of demo_config armed_proc] h1 h2 h3 w
    by (simp add: armed_proc_def)
qed

section \<open>Archive fetch: the ref fallback\<close>

lemma downloadAttempt_rt_eq:
  "downloadAttempt_rt owner repo att r =
     (if \<not> empty_ok (att r) then ([DownloadAttempt r, EmptyDir], Inl FsError)
      else (case http (att r) of
              NoResponse \<Rightarrow>
                ([DownloadAttempt r, EmptyDir, HttpGet (tarballUrl owner repo r)], Inl (AxiosError None))
            | Response s \<Rightarrow>
                if 200 \<le> s \<and> s < 300
                then ([DownloadAttempt r, EmptyDir, HttpGet (tarballUrl owner repo r), Extract],
                      if extract_ok (att r) then Inr () else Inl TarError)
                else ([DownloadAttempt r, EmptyDir, HttpGet (tarballUrl owner repo r)],
                      Inl (AxiosError (Some s)))))"
  by (simp add: downloadAttempt_rt_def andThen_def eff_def http_get_def split: http_result.splits)

lemma downloadAttempt_build_eq:
  "downloadAttempt_build owner repo att r =
     (case http (att r) of
        NoResponse \<Rightarrow>
          ([DownloadAttempt r, HttpGet (tarballUrl owner repo r)], Inl (AxiosError None))
      | Response s \<Rightarrow>
          if 200 \<le> s \<and> s < 300
          then ([DownloadAttempt r, HttpGet (tarballUrl owner repo r), Extract],
                if extract_ok (att r) then Inr () else Inl TarError)
          else ([DownloadAttempt r, HttpGet (tarballUrl owner repo r)],
                Inl (AxiosError (Some s))))"
  by (simp add: downloadAttempt_build_def andThen_def eff_def http_get_def split: http_result.splits)

text \<open>One attempt against its description: the events, success, and the 404 test of the
  \<open>catch\<close> block.\<close>

lemma attempt_rt_events:
  "fst (downloadAttempt_rt owner repo att r) = attempt_events True owner repo (att r) r"
  by (simp add: downloadAttempt_rt_eq attempt_events_def status_ok_def split: http_result.splits)

lemma attempt_build_events:
  "fst (downloadAttempt_build owner repo att r) = attempt_events False owner repo (att r) r"
  by (simp add: downloadAttempt_build_eq attempt_events_def status_ok_def split: http_result.splits)

lemma attempt_rt_cases:
  "(attempt_succeeds True (att r) \<and> snd (downloadAttempt_rt owner repo att r) = Inr ()) \<or>
   (\<not> attempt_succeeds True (att r) \<and>
    (\<exists>e. snd (downloadAttempt_rt owner repo att r) = Inl e \<and> is_404 e = answered_404 True (att r)))"
  by (auto simp: downloadAttempt_rt_eq attempt_succeeds_def answered_404_def status_ok_def
      split: http_result.splits)

lemma attempt_build_cases:
  "(attempt_succeeds False (att r) \<and> snd (downloadAttempt_build owner repo att r) = Inr ()) \<or>
   (\<not> attempt_succeeds False (att r) \<and>
    (\<exists>e. snd (downloadAttempt_build owner repo att r) = Inl e \<and> is_404 e = answered_404 False (att r)))"
  by (auto simp: downloadAttempt_build_eq attempt_succeeds_def answered_404_def status_ok_def
      split: http_result.splits)

lemma answered_404_fails: "answered_404 clears a \<Longrightarrow> \<not> attempt_succeeds clears a"
  by (simp add: answered_404_def attempt_succeeds_def status_ok_def)

lemma start_ref_main: "(start_ref cfg = VStr ''main'') = asks_main (gitRef cfg)"
  by (auto simp: start_ref_def asks_main_def)

lemma start_ref_text:
  "to_string (start_ref cfg) = (if asks_main (gitRef cfg) then ''main'' else to_string (gitRef cfg))"
  by (auto simp: start_ref_def asks_main_def)

lemma clone_last:
  "fallbackToClone cfg w =
     ([GitClone (gitUrl cfg) (gitRef cfg) 1], if b_clone_ok w then Inr () else Inl GitError)"
  by (simp add: fallbackToClone_def cloneGitRepo_def tryCatch_def eff_def)

lemma runtime_fetch_trace:
  assumes "gitUrl cfg = VStr u" and "github_match u = Some (owner, repo)"
  shows "fst (downloadAndExtractTarballRuntime cfg att) =
           (if asks_main (gitRef cfg) then
              attempt_events True owner repo (att ''main'') ''main'' @
              (if answered_404 True (att ''main'')
               then attempt_events True owner repo (att ''master'') ''master'' else [])
            else attempt_events True owner repo (att (to_string (gitRef cfg))) (to_string (gitRef cfg)))"
proof -
  let ?r = "to_string (start_ref cfg)"
  let ?first = "downloadAttempt_rt owner repo att ?r"
  have d: "fst (downloadAndExtractTarballRuntime cfg att) =
             attempt_events True owner repo (att ?r) ?r @
             (case snd ?first of
                Inl e \<Rightarrow> if start_ref cfg = VStr ''main'' \<and> is_404 e
                          then attempt_events True owner repo (att ''master'') ''master'' else []
              | Inr x \<Rightarrow> [])"
    using assms
    by (simp add: downloadAndExtractTarballRuntime_def tryCatch_fst attempt_rt_events
        split: sum.splits)
  from attempt_rt_cases [of att ?r owner repo]
  have t: "(case snd ?first of
                Inl e \<Rightarrow> if start_ref cfg = VStr ''main'' \<and> is_404 e
                          then attempt_events True owner repo (att ''master'') ''master'' else []
              | Inr x \<Rightarrow> []) =
           (if asks_main (gitRef cfg) \<and> answered_404 True (att ?r)
            then attempt_events True owner repo (att ''master'') ''master'' else [])"
    using answered_404_fails [of True "att ?r"]
    by (auto simp: start_ref_main)
  have k: "fst (downloadAndExtractTarballRuntime cfg att) =
             attempt_events True owner repo (att ?r) ?r @
             (if asks_main (gitRef cfg) \<and> answered_404 True (att ?r)
              then attempt_events True owner repo (att ''master'') ''master'' else [])"
    by (simp only: d t)
  show ?thesis
    using k by (cases "asks_main (gitRef cfg)") (simp_all add: start_ref_text)
qed

lemma build_fetch_trace:
  assumes "gitUrl cfg = VStr u" and "github_match u = Some (owner, repo)"
  shows "fst (downloadAndExtractTarball cfg w) =
           (if asks_main (gitRef cfg) then
              attempt_events False owner repo (b_attempt w ''main'') ''main'' @
              (if answered_404 False (b_attempt w ''main'') then
                 attempt_events False owner repo (b_attempt w ''master'') ''master'' @
                 (if attempt_succeeds False (b_attempt w ''master'') then []
                  else [GitClone (gitUrl cfg) (gitRef cfg) 1])
               else if attempt_succeeds False (b_attempt w ''main'') then []
               else [GitClone (gitUrl cfg) (gitRef cfg) 1])
            else
              attempt_events False owner repo (b_attempt w (to_string (gitRef cfg)))
                (to_string (gitRef cfg)) @
              (if attempt_succeeds False (b_attempt w (to_string (gitRef cfg))) then []
               else [GitClone (gitUrl cfg) (gitRef cfg) 1]))"
proof -
  let ?r = "to_string (start_ref cfg)"
  let ?first = "downloadAttempt_build owner repo (b_attempt w) ?r"
  let ?retry = "downloadAttempt_build owner repo (b_attempt w) ''master''"
  let ?clone = "[GitClone (gitUrl cfg) (gitRef cfg) 1]"
  have d: "fst (downloadAndExtractTarball cfg w) =
             attempt_events False owner repo (b_attempt w ?r) ?r @
             (case snd ?first of
                Inl e \<Rightarrow> if start_ref cfg = VStr ''main'' \<and> is_404 e
                          then attempt_events False owner repo (b_attempt w ''master'') ''master'' @
                               (case snd ?retry of Inl e2 \<Rightarrow> ?clone | Inr x \<Rightarrow> [])
                          else ?clone
              | Inr x \<Rightarrow> [])"
    using assms
    by (simp add: downloadAndExtractTarball_def tryCatch_fst clone_last attempt_build_events
        split: sum.splits)
  from attempt_build_cases [of "b_attempt w" "''master''" owner repo]
  have m: "(case snd ?retry of Inl e2 \<Rightarrow> ?clone | Inr x \<Rightarrow> []) =
           (if attempt_succeeds False (b_attempt w ''master'') then [] else ?clone)"
    by auto
  from attempt_build_cases [of "b_attempt w" ?r owner repo]
  have t: "(case snd ?first of
                Inl e \<Rightarrow> if start_ref cfg = VStr ''main'' \<and> is_404 e
                          then attempt_events False owner repo (b_attempt w ''master'') ''master'' @
                               (case snd ?retry of Inl e2 \<Rightarrow> ?clone | Inr x \<Rightarrow> [])
                          else ?clone
              | Inr x \<Rightarrow> []) =
           (if asks_main (gitRef cfg) \<and> answered_404 False (b_attempt w ?r) then
              attempt_events False owner repo (b_attempt w ''master'') ''master'' @
              (if attempt_succeeds False (b_attempt w ''master'') then [] else ?clone)
            else if attempt_succeeds False (b_attempt w ?r) then [] else ?clone)"
    using answered_404_fails [of False "b_attempt w ?r"]
    by (auto simp: start_ref_main m)
  have k: "fst (downloadAndExtractTarball cfg w) =
             attempt_events False owner repo (b_attempt w ?r) ?r @
             (if asks_main (gitRef cfg) \<and> answered_404 False (b_attempt w ?r) then
                attempt_events False owner repo (b_attempt w ''master'') ''master'' @
                (if attempt_succeeds False (b_attempt w ''master'') then [] else ?clone)
              else if attempt_succeeds False (b_attempt w ?r) then [] else ?clone)"
    by (simp only: d t)
  show ?thesis
    using k by (cases "asks_main (gitRef cfg)") (simp_all add: start_ref_text)
qed

text \<open>
  C3.  An archive fetch whose ref is \<open>main\<close> (configured, or by default) and whose
  download is answered with 404 makes exactly one more attempt, with \<open>master\<close>, and that
  attempt is carried out in full: the directory emptied (at server start), the archive
  of \<open>master\<close> requested, the answer extracted.  In every other case (a failure that is
  not a 404, a ref other than \<open>main\<close>, success) there is the one attempt only, and a
  failing \<open>master\<close> attempt is not followed by another download: at server start nothing
  follows it, in the build only the clone.  The traces of both fetchers are exactly
  these.
\<close>

theorem ref_fallback_once:
  assumes "gitUrl cfg = VStr u" and "github_match u = Some (owner, repo)"
  shows "fst (downloadAndExtractTarballRuntime cfg att) =
           (if asks_main (gitRef cfg) then
              attempt_events True owner repo (att ''main'') ''main'' @
              (if answered_404 True (att ''main'')
               then attempt_events True owner repo (att ''master'') ''master'' else [])
            else attempt_events True owner repo (att (to_string (gitRef cfg))) (to_string (gitRef cfg))) \<and>
         fst (downloadAndExtractTarball cfg w) =
           (if asks_main (gitRef cfg) then
              attempt_events False owner repo (b_attempt w ''main'') ''main'' @
              (if answered_404 False (b_attempt w ''main'') then
                 attempt_events False owner repo (b_attempt w ''master'') ''master'' @
                 (if attempt_succeeds False (b_attempt w ''master'') then []
                  else [GitClone (gitUrl cfg) (gitRef cfg) 1])
               else if attempt_succeeds False (b_attempt w ''main'') then []
               else [GitClone (gitUrl cfg) (gitRef cfg) 1])
            else
              attempt_events False owner repo (b_attempt w (to_string (gitRef cfg)))
                (to_string (gitRef cfg)) @
              (if attempt_succeeds False (b_attempt w (to_string (gitRef cfg))) then []
               else [GitClone (gitUrl cfg) (gitRef cfg) 1]))"
  using runtime_fetch_trace [OF assms] build_fetch_trace [OF assms] by simp

lemma match_acme: "github_match ''https://github.com/acme/docs.git'' = Some (''acme'', ''docs'')"
  by (simp add: match_at_def strip_git_def)

theorem ref_fallback_once_witness:
  "gitUrl archive_config = VStr ''https://github.com/acme/docs.git'' \<and>
   github_match ''https://github.com/acme/docs.git'' = Some (''acme'', ''docs'') \<and>
   fst (downloadAndExtractTarballRuntime archive_config both_missing) =
     [DownloadAttempt ''main'', EmptyDir,
      HttpGet ''https://github.com/acme/docs/archive/main.tar.gz'',
      DownloadAttempt ''master'', EmptyDir,
      HttpGet ''https://github.com/acme/docs/archive/master.tar.gz''] \<and>
   fst (downloadAndExtractTarball archive_config (build_env main_missing)) =
     [DownloadAttempt ''main'',
      HttpGet ''https://github.com/acme/docs/archive/main.tar.gz'',
      DownloadAttempt ''master'',
      HttpGet ''https://github.com/acme/docs/archive/master.tar.gz'', Extract]"
proof -
  have h1: "gitUrl archive_config = VStr ''https://github.com/acme/docs.git''"
    by (simp add: archive_config_def)
  have s: "asks_main (gitRef archive_config)"
    by (simp add: asks_main_def archive_config_def defaultConfig_def)
  have a: "answered_404 True (both_missing ''main'')" "answered_404 False (main_missing ''main'')"
    "attempt_succeeds False (main_missing ''master'')"
    by (simp_all add: answered_404_def attempt_succeeds_def status_ok_def both_missing_def
        main_missing_def)
  have e: "attempt_events True ''acme'' ''docs'' (both_missing ''main'') ''main'' =
             [DownloadAttempt ''main'', EmptyDir,
              HttpGet ''https://github.com/acme/docs/archive/main.tar.gz'']"
    "attempt_events True ''acme'' ''docs'' (both_missing ''master'') ''master'' =
             [DownloadAttempt ''master'', EmptyDir,
              HttpGet ''https://github.com/acme/docs/archive/master.tar.gz'']"
    "attempt_events False ''acme'' ''docs'' (main_missing ''main'') ''main'' =
             [DownloadAttempt ''main'',
              HttpGet ''https://github.com/acme/docs/archive/main.tar.gz'']"
    "attempt_events False ''acme'' ''docs'' (main_missing ''master'') ''master'' =
             [DownloadAttempt ''master'',
              HttpGet ''https://github.com/acme/docs/archive/master.tar.gz'', Extract]"
    by (simp_all add: attempt_events_def status_ok_def both_missing_def main_missing_def
        tarballUrl_def)
  have b: "b_attempt (build_env main_missing) = main_missing" by (simp add: build_env_def)
  show ?thesis
    using ref_fallback_once [OF h1 match_acme, of both_missing "build_env main_missing"] h1 match_acme
    by (simp add: s a e b del: github_match.simps)
qed

section \<open>Archive fetch: what follows a failure\<close>








lemma prepare_archive:
  assumes "truthy (gitUrl cfg)" and "\<not> gt_zero (autoUpdateInterval cfg)"
    and "b_ensureDir_ok w" and "b_emptyDir_ok w"
  shows "prepareDataDir cfg w =
           (EnsureDir # EmptyDir # fst (downloadAndExtractTarball cfg w),
            snd (downloadAndExtractTarball cfg w))"
  using assms
  by (cases "downloadAndExtractTarball cfg w") (simp add: prepareDataDir_def andThen_def eff_def)



section \<open>Archive fetch: clearing the data directory\<close>

lemma cleared_from_append:
  "cleared_from p (xs @ ys) =
     (cleared_from p xs \<and> cleared_from (if xs = [] then p else last xs) ys)"
  by (induction xs arbitrary: p) auto

text \<open>The shape of the trace of one attempt at server start, the log line left out.\<close>

lemma attempt_rt_shape:
  "filter (\<lambda>ev. \<not> is_DownloadAttempt ev) (fst (downloadAttempt_rt owner repo att r)) \<in>
     {[EmptyDir], [EmptyDir, HttpGet (tarballUrl owner repo r)],
      [EmptyDir, HttpGet (tarballUrl owner repo r), Extract]}"
  by (simp add: downloadAttempt_rt_eq is_DownloadAttempt_def split: http_result.splits)

lemma shape_cleared:
  assumes "xs \<in> {[EmptyDir], [EmptyDir, HttpGet u], [EmptyDir, HttpGet u, Extract]}"
  shows "xs \<noteq> [] \<and> hd xs = EmptyDir \<and> cleared_from EmptyDir (tl xs)"
  using assms by (auto simp: is_HttpGet_def)

lemma two_shapes_cleared:
  assumes "xs \<in> {[EmptyDir], [EmptyDir, HttpGet u], [EmptyDir, HttpGet u, Extract]}"
    and "ys \<in> {[EmptyDir], [EmptyDir, HttpGet v], [EmptyDir, HttpGet v, Extract]}"
  shows "(case xs @ ys of [] \<Rightarrow> True | x # r \<Rightarrow> \<not> is_HttpGet x \<and> cleared_from x r)"
  using assms by (auto simp: is_HttpGet_def)

lemma one_shape_cleared:
  assumes "xs \<in> {[EmptyDir], [EmptyDir, HttpGet u], [EmptyDir, HttpGet u, Extract]}"
  shows "(case xs of [] \<Rightarrow> True | x # r \<Rightarrow> \<not> is_HttpGet x \<and> cleared_from x r)"
  using assms by (auto simp: is_HttpGet_def)

lemma runtime_fetch_cleared:
  "cleared_before_each (fst (downloadAndExtractTarballRuntime cfg att))"
proof (cases "gitUrl cfg")
  case VNull
  then show ?thesis
    by (simp add: downloadAndExtractTarballRuntime_def cleared_before_each_def)
next
  case (VBool b)
  then show ?thesis
    by (simp add: downloadAndExtractTarballRuntime_def cleared_before_each_def)
next
  case (VNum n)
  then show ?thesis
    by (simp add: downloadAndExtractTarballRuntime_def cleared_before_each_def)
next
  case (VObj n)
  then show ?thesis
    by (simp add: downloadAndExtractTarballRuntime_def cleared_before_each_def)
next
  case (VStr u)
  show ?thesis
  proof (cases "github_match u")
    case None
    with VStr show ?thesis
      by (simp add: downloadAndExtractTarballRuntime_def cleared_before_each_def)
  next
    case m: (Some p)
    obtain owner repo where p: "p = (owner, repo)" by (cases p) auto
    let ?f = "\<lambda>tr. filter (\<lambda>ev. \<not> is_DownloadAttempt ev) tr"
    let ?first = "downloadAttempt_rt owner repo att (to_string (start_ref cfg))"
    let ?retry = "downloadAttempt_rt owner repo att ''master''"
    have a: "?f (fst ?first) \<in>
       {[EmptyDir], [EmptyDir, HttpGet (tarballUrl owner repo (to_string (start_ref cfg)))],
        [EmptyDir, HttpGet (tarballUrl owner repo (to_string (start_ref cfg))), Extract]}"
      by (rule attempt_rt_shape)
    have b: "?f (fst ?retry) \<in>
       {[EmptyDir], [EmptyDir, HttpGet (tarballUrl owner repo ''master'')],
        [EmptyDir, HttpGet (tarballUrl owner repo ''master''), Extract]}"
      by (rule attempt_rt_shape)
    have t: "?f (fst (downloadAndExtractTarballRuntime cfg att)) = ?f (fst ?first) \<or>
             ?f (fst (downloadAndExtractTarballRuntime cfg att)) = ?f (fst ?first) @ ?f (fst ?retry)"
      using VStr m p
      by (auto simp: downloadAndExtractTarballRuntime_def tryCatch_fst split: sum.splits)
    from t show ?thesis
    proof
      assume "?f (fst (downloadAndExtractTarballRuntime cfg att)) = ?f (fst ?first)"
      then show ?thesis
        using one_shape_cleared [OF a] by (simp add: cleared_before_each_def)
    next
      assume "?f (fst (downloadAndExtractTarballRuntime cfg att)) = ?f (fst ?first) @ ?f (fst ?retry)"
      then show ?thesis
        using two_shapes_cleared [OF a b] by (simp add: cleared_before_each_def)
    qed
  qed
qed

lemma attempt_build_no_empty: "EmptyDir \<notin> set (fst (downloadAttempt_build owner repo att r))"
  by (simp add: downloadAttempt_build_eq split: http_result.splits)

lemma build_fetch_no_empty: "EmptyDir \<notin> set (fst (downloadAndExtractTarball cfg w))"
  by (simp add: downloadAndExtractTarball_def tryCatch_fst attempt_build_no_empty clone_last
      cloneGitRepo_def eff_def
      split: jsval.splits option.splits prod.splits sum.splits)

lemma build_fetch_starts:
  assumes "gitUrl cfg = VStr u" and "github_match u = Some (owner, repo)"
  shows "take 2 (fst (downloadAndExtractTarball cfg w)) =
           [DownloadAttempt (to_string (start_ref cfg)), HttpGet (tarballUrl owner repo (to_string (start_ref cfg)))]"
proof -
  let ?first = "downloadAttempt_build owner repo (b_attempt w) (to_string (start_ref cfg))"
  have a: "take 2 (fst ?first) =
             [DownloadAttempt (to_string (start_ref cfg)), HttpGet (tarballUrl owner repo (to_string (start_ref cfg)))]"
    and l: "2 \<le> length (fst ?first)"
    by (simp_all add: downloadAttempt_build_eq split: http_result.splits)
  have "\<exists>rest. fst (downloadAndExtractTarball cfg w) = fst ?first @ rest"
    using assms by (simp add: downloadAndExtractTarball_def tryCatch_fst split: sum.splits)
  then obtain rest where "fst (downloadAndExtractTarball cfg w) = fst ?first @ rest" ..
  then show ?thesis using a l by simp
qed

text \<open>
  C5, as the code has it.  At server start every attempt of the archive fetch, the
  \<open>master\<close> retry included, empties the data directory immediately before its request.
  In the build the data directory is emptied once, by \<open>prepareDataDir\<close>, immediately before
  the first attempt of the archive fetch; the fetch itself never empties it.
\<close>

theorem cleared_before_attempts:
  "cleared_before_each (fst (downloadAndExtractTarballRuntime cfg att)) \<and>
   EmptyDir \<notin> set (fst (downloadAndExtractTarball cfg bw)) \<and>
   (gitUrl cfg = VStr u \<and> truthy_str u \<and> github_match u = Some (owner, repo) \<and>
    \<not> gt_zero (autoUpdateInterval cfg) \<and> b_ensureDir_ok bw \<and> b_emptyDir_ok bw \<longrightarrow>
      take 4 (fst (prepareDataDir cfg bw)) =
        [EnsureDir, EmptyDir, DownloadAttempt (to_string (start_ref cfg)),
         HttpGet (tarballUrl owner repo (to_string (start_ref cfg)))])"
proof (intro conjI impI)
  show "cleared_before_each (fst (downloadAndExtractTarballRuntime cfg att))"
    by (rule runtime_fetch_cleared)
  show "EmptyDir \<notin> set (fst (downloadAndExtractTarball cfg bw))"
    by (rule build_fetch_no_empty)
  assume h: "gitUrl cfg = VStr u \<and> truthy_str u \<and> github_match u = Some (owner, repo) \<and>
    \<not> gt_zero (autoUpdateInterval cfg) \<and> b_ensureDir_ok bw \<and> b_emptyDir_ok bw"
  then have t: "truthy (gitUrl cfg)" by simp
  have p: "prepareDataDir cfg bw =
           (EnsureDir # EmptyDir # fst (downloadAndExtractTarball cfg bw),
            snd (downloadAndExtractTarball cfg bw))"
    using prepare_archive [OF t, of bw] h by simp
  have s: "take 2 (fst (downloadAndExtractTarball cfg bw)) =
           [DownloadAttempt (to_string (start_ref cfg)), HttpGet (tarballUrl owner repo (to_string (start_ref cfg)))]"
    using build_fetch_starts h by blast
  have "take 4 (EnsureDir # EmptyDir # fst (downloadAndExtractTarball cfg bw)) =
          EnsureDir # EmptyDir # take 2 (fst (downloadAndExtractTarball cfg bw))"
    by (simp add: numeral_eq_Suc)
  then show "take 4 (fst (prepareDataDir cfg bw)) =
        [EnsureDir, EmptyDir, DownloadAttempt (to_string (start_ref cfg)),
         HttpGet (tarballUrl owner repo (to_string (start_ref cfg)))]"
    using p s by simp
qed

theorem cleared_before_attempts_witness:
  "gitUrl archive_config = VStr ''https://github.com/acme/docs.git'' \<and>
   github_match ''https://github.com/acme/docs.git'' = Some (''acme'', ''docs'') \<and>
   \<not> gt_zero (autoUpdateInterval archive_config) \<and>
   cleared_before_each (fst (downloadAndExtractTarballRuntime archive_config main_missing)) \<and>
   take 4 (fst (prepareDataDir archive_config (build_env main_missing))) =
     [EnsureDir, EmptyDir, DownloadAttempt ''main'',
      HttpGet ''https://github.com/acme/docs/archive/main.tar.gz'']"
proof -
  have s: "start_ref archive_config = VStr ''main''"
    by (simp add: start_ref_def archive_config_def defaultConfig_def truthy_str_def)
  have h2: "gitUrl archive_config = VStr ''https://github.com/acme/docs.git''"
    "truthy_str ''https://github.com/acme/docs.git''"
    by (simp_all add: archive_config_def truthy_str_def)
  have h3: "\<not> gt_zero (autoUpdateInterval archive_config)"
    by (simp add: archive_config_def defaultConfig_def)
  have h6: "b_ensureDir_ok (build_env main_missing)" "b_emptyDir_ok (build_env main_missing)"
    by (simp_all add: build_env_def)
  show ?thesis
    using cleared_before_attempts [of archive_config main_missing "build_env main_missing"
        "''https://github.com/acme/docs.git''" "''acme''" "''docs''"]
      h2 h3 h6 match_acme
    by (simp add: s tarballUrl_def del: github_match.simps)
qed

text \<open>
  C5 as stated fails in the build: with \<open>main\<close> answered 404 the retry with \<open>master\<close>
  follows the first request directly, the directory having been emptied once before the
  first attempt.
\<close>

theorem build_retry_not_cleared:
  "fst (prepareDataDir archive_config (build_env main_missing)) =
     [EnsureDir, EmptyDir,
      DownloadAttempt ''main'', HttpGet ''https://github.com/acme/docs/archive/main.tar.gz'',
      DownloadAttempt ''master'', HttpGet ''https://github.com/acme/docs/archive/master.tar.gz'',
      Extract] \<and>
   \<not> cleared_before_each (fst (prepareDataDir archive_config (build_env main_missing)))"
proof -
  have s: "start_ref archive_config = VStr ''main''"
    by (simp add: start_ref_def archive_config_def defaultConfig_def truthy_str_def)
  have g: "gitUrl archive_config = VStr ''https://github.com/acme/docs.git''"
    "autoUpdateInterval archive_config = Num 0"
    by (simp_all add: archive_config_def defaultConfig_def)
  have d: "downloadAndExtractTarball archive_config (build_env main_missing) =
     ([DownloadAttempt ''main'', HttpGet ''https://github.com/acme/docs/archive/main.tar.gz'',
      DownloadAttempt ''master'', HttpGet ''https://github.com/acme/docs/archive/master.tar.gz'',
      Extract], Inr ())"
    by (simp add: downloadAndExtractTarball_def g match_acme s tryCatch_def
        downloadAttempt_build_eq build_env_def main_missing_def tarballUrl_def
        del: github_match.simps)
  have p: "prepareDataDir archive_config (build_env main_missing) =
     ([EnsureDir, EmptyDir,
      DownloadAttempt ''main'', HttpGet ''https://github.com/acme/docs/archive/main.tar.gz'',
      DownloadAttempt ''master'', HttpGet ''https://github.com/acme/docs/archive/master.tar.gz'',
      Extract], Inr ())"
  proof -
    have t: "truthy (gitUrl archive_config)" by (simp add: g truthy_str_def)
    have z: "\<not> gt_zero (autoUpdateInterval archive_config)" by (simp add: g)
    have e: "b_ensureDir_ok (build_env main_missing)" "b_emptyDir_ok (build_env main_missing)"
      by (simp_all add: build_env_def)
    show ?thesis using prepare_archive [OF t z e] by (simp add: d)
  qed
  show ?thesis
    by (simp add: p cleared_before_each_def is_DownloadAttempt_def is_HttpGet_def)
qed

section \<open>Configuration: layers and the source rule\<close>

lemma apply_env_fields:
  "includeDir (apply_env e c) = (case set_env (e_INCLUDE_DIR e) of Some v \<Rightarrow> v | None \<Rightarrow> includeDir c)"
  "gitUrl (apply_env e c) = (case set_env (e_GIT_URL e) of Some v \<Rightarrow> v | None \<Rightarrow> gitUrl c)"
  "gitRef (apply_env e c) = (case set_env (e_GIT_REF e) of Some v \<Rightarrow> v | None \<Rightarrow> gitRef c)"
  "autoUpdateInterval (apply_env e c) =
     (case set_str (e_AUTO_UPDATE_INTERVAL e) of Some v \<Rightarrow> parseInt v | None \<Rightarrow> autoUpdateInterval c)"
  "dataDir (apply_env e c) = (case set_env (e_DATA_DIR e) of Some v \<Rightarrow> v | None \<Rightarrow> dataDir c)"
  "toolName (apply_env e c) = (case set_env (e_TOOL_NAME e) of Some v \<Rightarrow> v | None \<Rightarrow> toolName c)"
  "toolDescription (apply_env e c) =
     (case set_env (e_TOOL_DESCRIPTION e) of Some v \<Rightarrow> v | None \<Rightarrow> toolDescription c)"
  "ignorePatterns (apply_env e c) = ignorePatterns c"
  "enableBuildCleanup (apply_env e c) = enableBuildCleanup c"
  by (simp_all add: apply_env_def Let_def set_env_def set_str_def truthy_str_def split: option.splits)

lemma apply_args_fields:
  "includeDir (apply_args a c) = (case set_arg (a_includeDir a) of Some v \<Rightarrow> v | None \<Rightarrow> includeDir c)"
  "gitUrl (apply_args a c) = (case set_arg (a_gitUrl a) of Some v \<Rightarrow> v | None \<Rightarrow> gitUrl c)"
  "gitRef (apply_args a c) = (case set_arg (a_gitRef a) of Some v \<Rightarrow> v | None \<Rightarrow> gitRef c)"
  "autoUpdateInterval (apply_args a c) =
     (case a_autoUpdateInterval a of Some v \<Rightarrow> parseInt_arg v | None \<Rightarrow> autoUpdateInterval c)"
  "dataDir (apply_args a c) = (case set_arg (a_dataDir a) of Some v \<Rightarrow> v | None \<Rightarrow> dataDir c)"
  "toolName (apply_args a c) = (case set_arg (a_toolName a) of Some v \<Rightarrow> v | None \<Rightarrow> toolName c)"
  "toolDescription (apply_args a c) =
     (case set_arg (a_toolDescription a) of Some v \<Rightarrow> v | None \<Rightarrow> toolDescription c)"
  "ignorePatterns (apply_args a c) = ignorePatterns c"
  "enableBuildCleanup (apply_args a c) =
     (case a_enableBuildCleanup a of Some v \<Rightarrow> cleanup_flag v | None \<Rightarrow> enableBuildCleanup c)"
  by (simp_all add: apply_args_def Let_def set_arg_def split: option.splits)

lemma load_file_fields:
  "includeDir (fst (load_file c cf)) =
     (case from_file f_includeDir cf of Some v \<Rightarrow> of_nullable v | None \<Rightarrow> includeDir c)"
  "gitUrl (fst (load_file c cf)) =
     (case from_file f_gitUrl cf of Some v \<Rightarrow> of_nullable v | None \<Rightarrow> gitUrl c)"
  "gitRef (fst (load_file c cf)) = (case from_file f_gitRef cf of Some v \<Rightarrow> VStr v | None \<Rightarrow> gitRef c)"
  "autoUpdateInterval (fst (load_file c cf)) =
     (case from_file f_autoUpdateInterval cf of Some n \<Rightarrow> Num n | None \<Rightarrow> autoUpdateInterval c)"
  "dataDir (fst (load_file c cf)) = (case from_file f_dataDir cf of Some v \<Rightarrow> VStr v | None \<Rightarrow> dataDir c)"
  "toolName (fst (load_file c cf)) =
     (case from_file f_toolName cf of Some v \<Rightarrow> VStr v | None \<Rightarrow> toolName c)"
  "toolDescription (fst (load_file c cf)) =
     (case from_file f_toolDescription cf of Some v \<Rightarrow> VStr v | None \<Rightarrow> toolDescription c)"
  "ignorePatterns (fst (load_file c cf)) =
     (case from_file f_ignorePatterns cf of Some v \<Rightarrow> v | None \<Rightarrow> ignorePatterns c)"
  "enableBuildCleanup (fst (load_file c cf)) =
     (case from_file f_enableBuildCleanup cf of Some v \<Rightarrow> v | None \<Rightarrow> enableBuildCleanup c)"
  by (simp_all add: load_file_def spread_file_def from_file_def split: config_file.splits)

lemma merged_is_layered: "merged pkgData a e cf = spec_merge pkgData a e cf"
proof (rule config.equality)
  show "includeDir (merged pkgData a e cf) = includeDir (spec_merge pkgData a e cf)"
    by (simp add: merged_def spec_merge_def layered_def apply_args_fields apply_env_fields
        load_file_fields defaultConfig_def split: option.splits)
  show "gitUrl (merged pkgData a e cf) = gitUrl (spec_merge pkgData a e cf)"
    by (simp add: merged_def spec_merge_def layered_def apply_args_fields apply_env_fields
        load_file_fields defaultConfig_def split: option.splits)
  show "gitRef (merged pkgData a e cf) = gitRef (spec_merge pkgData a e cf)"
    by (simp add: merged_def spec_merge_def layered_def apply_args_fields apply_env_fields
        load_file_fields defaultConfig_def split: option.splits)
  show "autoUpdateInterval (merged pkgData a e cf) = autoUpdateInterval (spec_merge pkgData a e cf)"
    by (simp add: merged_def spec_merge_def layered_def apply_args_fields apply_env_fields
        load_file_fields defaultConfig_def split: option.splits)
  show "dataDir (merged pkgData a e cf) = dataDir (spec_merge pkgData a e cf)"
    by (simp add: merged_def spec_merge_def layered_def apply_args_fields apply_env_fields
        load_file_fields defaultConfig_def split: option.splits)
  show "toolName (merged pkgData a e cf) = toolName (spec_merge pkgData a e cf)"
    by (simp add: merged_def spec_merge_def layered_def apply_args_fields apply_env_fields
        load_file_fields defaultConfig_def split: option.splits)
  show "toolDescription (merged pkgData a e cf) = toolDescription (spec_merge pkgData a e cf)"
    by (simp add: merged_def spec_merge_def layered_def apply_args_fields apply_env_fields
        load_file_fields defaultConfig_def split: option.splits)
  show "ignorePatterns (merged pkgData a e cf) = ignorePatterns (spec_merge pkgData a e cf)"
    by (simp add: merged_def spec_merge_def layered_def apply_args_fields apply_env_fields
        load_file_fields defaultConfig_def split: option.splits)
  show "enableBuildCleanup (merged pkgData a e cf) = enableBuildCleanup (spec_merge pkgData a e cf)"
    by (simp add: merged_def spec_merge_def layered_def apply_args_fields apply_env_fields
        load_file_fields defaultConfig_def split: option.splits)
  show "config.more (merged pkgData a e cf) = config.more (spec_merge pkgData a e cf)"
    by simp
qed

lemma loadConfig_eq:
  "loadConfig pkgData cwd a e cf =
     (case absolutize cwd (merged pkgData a e cf) of
        Inl err \<Rightarrow> (snd (load_file (defaultConfig pkgData) cf), Inl err)
      | Inr c \<Rightarrow> (snd (load_file (defaultConfig pkgData) cf) @ snd (validate c),
                  Inr (fst (validate c))))"
  by (simp add: loadConfig_def merged_def split: prod.splits sum.splits)

lemma path_resolve_truthy: "truthy_str (path_resolve cwd p)"
  by (simp add: path_resolve_def truthy_str_def)

text \<open>When the path step returns, and what it returns.\<close>

lemma absolutize_returns:
  "(\<exists>c'. absolutize cwd c = Inr c') =
     (is_string (dataDir c) \<and> (truthy (includeDir c) \<longrightarrow> is_string (includeDir c)))"
  by (auto simp: absolutize_def absolutize_dataDir_def absolutize_includeDir_def is_string_def
      split: jsval.splits sum.splits)

lemma absolutize_throws:
  "absolutize cwd c = Inl err \<Longrightarrow> err = TypeError"
  by (auto simp: absolutize_def absolutize_dataDir_def absolutize_includeDir_def
      split: jsval.splits sum.splits if_splits)

lemma absolutize_fields:
  assumes "absolutize cwd c = Inr c'"
  shows "includeDir c' = abs_dir cwd (includeDir c)"
    and "gitUrl c' = gitUrl c"
    and "gitRef c' = gitRef c"
    and "autoUpdateInterval c' = autoUpdateInterval c"
    and "dataDir c' = abs_data cwd (dataDir c)"
    and "toolName c' = toolName c"
    and "toolDescription c' = toolDescription c"
    and "ignorePatterns c' = ignorePatterns c"
    and "enableBuildCleanup c' = enableBuildCleanup c"
  using assms
  by (auto simp: absolutize_def absolutize_dataDir_def absolutize_includeDir_def abs_dir_def
      abs_data_def truthy_str_def
      split: jsval.splits sum.splits if_splits)

lemma abs_dir_truthy: "truthy (abs_dir cwd d) = truthy d"
  using path_resolve_truthy [of cwd]
  by (simp add: abs_dir_def truthy_str_def split: jsval.splits)

lemma validate_fields:
  "includeDir (fst (validate c)) = (if truthy (includeDir c) \<and> truthy (gitUrl c) then VNull else includeDir c)"
  "gitUrl (fst (validate c)) = gitUrl c"
  "gitRef (fst (validate c)) = gitRef c"
  "autoUpdateInterval (fst (validate c)) = autoUpdateInterval c"
  "dataDir (fst (validate c)) = dataDir c"
  "toolName (fst (validate c)) = toolName c"
  "toolDescription (fst (validate c)) = toolDescription c"
  "ignorePatterns (fst (validate c)) = ignorePatterns c"
  "enableBuildCleanup (fst (validate c)) = enableBuildCleanup c"
  by (simp_all add: validate_def Let_def)




lemma loadConfig_returns:
  assumes "snd (loadConfig pkgData cwd a e cf) = Inr r"
  obtains c where "absolutize cwd (merged pkgData a e cf) = Inr c"
    and "r = fst (validate c)"
    and "fst (loadConfig pkgData cwd a e cf) =
           snd (load_file (defaultConfig pkgData) cf) @ snd (validate c)"
  using assms by (auto simp: loadConfig_eq split: sum.splits)

lemma loadConfig_returns_iff:
  "(\<exists>r. snd (loadConfig pkgData cwd a e cf) = Inr r) =
     (is_string (dataDir (merged pkgData a e cf)) \<and>
      (truthy (includeDir (merged pkgData a e cf)) \<longrightarrow> is_string (includeDir (merged pkgData a e cf))))"
  using absolutize_returns [of cwd "merged pkgData a e cf"]
  by (auto simp: loadConfig_eq split: sum.splits)

lemma resolved_fields:
  assumes "snd (loadConfig pkgData cwd a e cf) = Inr r"
  shows "gitUrl r = gitUrl (merged pkgData a e cf)"
    and "gitRef r = gitRef (merged pkgData a e cf)"
    and "autoUpdateInterval r = autoUpdateInterval (merged pkgData a e cf)"
    and "toolName r = toolName (merged pkgData a e cf)"
    and "toolDescription r = toolDescription (merged pkgData a e cf)"
    and "ignorePatterns r = ignorePatterns (merged pkgData a e cf)"
    and "enableBuildCleanup r = enableBuildCleanup (merged pkgData a e cf)"
    and "dataDir r = abs_data cwd (dataDir (merged pkgData a e cf))"
    and "includeDir r =
           (if truthy (includeDir (merged pkgData a e cf)) \<and> truthy (gitUrl (merged pkgData a e cf))
            then VNull else abs_dir cwd (includeDir (merged pkgData a e cf)))"
proof -
  from assms obtain c where c: "absolutize cwd (merged pkgData a e cf) = Inr c"
    and r: "r = fst (validate c)"
    by (rule loadConfig_returns)
  note f = absolutize_fields [OF c]
  show "gitUrl r = gitUrl (merged pkgData a e cf)"
    and "gitRef r = gitRef (merged pkgData a e cf)"
    and "autoUpdateInterval r = autoUpdateInterval (merged pkgData a e cf)"
    and "toolName r = toolName (merged pkgData a e cf)"
    and "toolDescription r = toolDescription (merged pkgData a e cf)"
    and "ignorePatterns r = ignorePatterns (merged pkgData a e cf)"
    and "enableBuildCleanup r = enableBuildCleanup (merged pkgData a e cf)"
    and "dataDir r = abs_data cwd (dataDir (merged pkgData a e cf))"
    and "includeDir r =
           (if truthy (includeDir (merged pkgData a e cf)) \<and> truthy (gitUrl (merged pkgData a e cf))
            then VNull else abs_dir cwd (includeDir (merged pkgData a e cf)))"
    by (simp_all add: r validate_fields f abs_dir_truthy)
qed

text \<open>
  C6, as the code has it.  After the three override steps every field has the value of
  the highest layer that sets it (command line over environment over file over
  default), the interval of the command line and of the environment read by \<open>parseInt\<close>.
  When the \<open>dataDir\<close> of these merged settings is a string and their \<open>includeDir\<close> is a
  string or not set, \<open>loadConfig\<close> returns settings, and they are the merged ones except
  that a relative \<open>dataDir\<close> or \<open>includeDir\<close> is made absolute and that \<open>includeDir\<close> is
  \<open>null\<close> when \<open>gitUrl\<close> is set as well.
\<close>

theorem layered_settings:
  "merged pkgData a e cf = spec_merge pkgData a e cf \<and>
   (is_string (dataDir (spec_merge pkgData a e cf)) \<and>
    (truthy (includeDir (spec_merge pkgData a e cf)) \<longrightarrow>
       is_string (includeDir (spec_merge pkgData a e cf))) \<longrightarrow>
    (\<exists>r. snd (loadConfig pkgData cwd a e cf) = Inr r \<and>
      gitUrl r = gitUrl (spec_merge pkgData a e cf) \<and>
      gitRef r = gitRef (spec_merge pkgData a e cf) \<and>
      autoUpdateInterval r = autoUpdateInterval (spec_merge pkgData a e cf) \<and>
      toolName r = toolName (spec_merge pkgData a e cf) \<and>
      toolDescription r = toolDescription (spec_merge pkgData a e cf) \<and>
      ignorePatterns r = ignorePatterns (spec_merge pkgData a e cf) \<and>
      enableBuildCleanup r = enableBuildCleanup (spec_merge pkgData a e cf) \<and>
      dataDir r = abs_data cwd (dataDir (spec_merge pkgData a e cf)) \<and>
      includeDir r =
        (if truthy (includeDir (spec_merge pkgData a e cf)) \<and>
            truthy (gitUrl (spec_merge pkgData a e cf))
         then VNull else abs_dir cwd (includeDir (spec_merge pkgData a e cf)))))"
proof (intro conjI impI)
  show "merged pkgData a e cf = spec_merge pkgData a e cf" by (rule merged_is_layered)
next
  assume s: "is_string (dataDir (spec_merge pkgData a e cf)) \<and>
    (truthy (includeDir (spec_merge pkgData a e cf)) \<longrightarrow>
       is_string (includeDir (spec_merge pkgData a e cf)))"
  then obtain r where h: "snd (loadConfig pkgData cwd a e cf) = Inr r"
    using loadConfig_returns_iff [of pkgData cwd a e cf] by (auto simp: merged_is_layered)
  note f = resolved_fields [OF h, unfolded merged_is_layered]
  show "\<exists>r. snd (loadConfig pkgData cwd a e cf) = Inr r \<and>
      gitUrl r = gitUrl (spec_merge pkgData a e cf) \<and>
      gitRef r = gitRef (spec_merge pkgData a e cf) \<and>
      autoUpdateInterval r = autoUpdateInterval (spec_merge pkgData a e cf) \<and>
      toolName r = toolName (spec_merge pkgData a e cf) \<and>
      toolDescription r = toolDescription (spec_merge pkgData a e cf) \<and>
      ignorePatterns r = ignorePatterns (spec_merge pkgData a e cf) \<and>
      enableBuildCleanup r = enableBuildCleanup (spec_merge pkgData a e cf) \<and>
      dataDir r = abs_data cwd (dataDir (spec_merge pkgData a e cf)) \<and>
      includeDir r =
        (if truthy (includeDir (spec_merge pkgData a e cf)) \<and>
            truthy (gitUrl (spec_merge pkgData a e cf))
         then VNull else abs_dir cwd (includeDir (spec_merge pkgData a e cf)))"
    using h f by blast
qed

lemma docs_layers:
  "includeDir (spec_merge ''/srv/pkg/data'' cli_docs no_env file_repo) = VStr ''/docs''"
  "gitUrl (spec_merge ''/srv/pkg/data'' cli_docs no_env file_repo) = VStr ''https://github.com/acme/docs''"
  "dataDir (spec_merge ''/srv/pkg/data'' cli_docs no_env file_repo) = VStr ''/srv/pkg/data''"
  by (simp_all add: spec_merge_def layered_def set_arg_def set_env_def set_str_def from_file_def
      cli_docs_def no_args_def no_env_def file_repo_def empty_file_def truthy_str_def)

lemma docs_config_loaded:
  "loadConfig ''/srv/pkg/data'' ''/home/u'' cli_docs no_env file_repo =
     ([LogLoaded, WarnBothSources],
      Inr ((defaultConfig ''/srv/pkg/data'')\<lparr> gitUrl := VStr ''https://github.com/acme/docs'' \<rparr>))"
  by code_simp

theorem layered_settings_witness:
  "is_string (dataDir (spec_merge ''/srv/pkg/data'' cli_docs no_env file_repo)) \<and>
   is_string (includeDir (spec_merge ''/srv/pkg/data'' cli_docs no_env file_repo)) \<and>
   includeDir (merged ''/srv/pkg/data'' cli_docs no_env file_repo) = VStr ''/docs'' \<and>
   (\<exists>r. snd (loadConfig ''/srv/pkg/data'' ''/home/u'' cli_docs no_env file_repo) = Inr r \<and>
        gitUrl r = VStr ''https://github.com/acme/docs'' \<and> includeDir r = VNull \<and>
        dataDir r = VStr ''/srv/pkg/data'')"
proof -
  have s: "is_string (dataDir (spec_merge ''/srv/pkg/data'' cli_docs no_env file_repo))"
    "is_string (includeDir (spec_merge ''/srv/pkg/data'' cli_docs no_env file_repo))"
    by (simp_all add: docs_layers is_string_def)
  have d: "abs_data ''/home/u'' (VStr ''/srv/pkg/data'') = VStr ''/srv/pkg/data''"
    by (simp add: abs_data_def isAbsolute_def)
  show ?thesis
    using layered_settings [of "''/srv/pkg/data''" cli_docs no_env file_repo "''/home/u''"] s
    by (auto simp: docs_layers truthy_str_def d)
qed

text \<open>
  C6 as stated fails for \<open>includeDir\<close>: set on the command line, the highest layer, it
  is \<open>null\<close> in the resolved settings when the file sets a repository URL.
\<close>

theorem cli_includeDir_dropped:
  "a_includeDir cli_docs = Some (VStr ''/docs'') \<and>
   includeDir (spec_merge ''/srv/pkg/data'' cli_docs no_env file_repo) = VStr ''/docs'' \<and>
   snd (loadConfig ''/srv/pkg/data'' ''/home/u'' cli_docs no_env file_repo) =
     Inr ((defaultConfig ''/srv/pkg/data'')\<lparr> gitUrl := VStr ''https://github.com/acme/docs'' \<rparr>) \<and>
   includeDir ((defaultConfig ''/srv/pkg/data'')\<lparr> gitUrl := VStr ''https://github.com/acme/docs'' \<rparr>) =
     VNull"
proof -
  have a: "a_includeDir cli_docs = Some (VStr ''/docs'')" by (simp add: cli_docs_def)
  show ?thesis using a by (simp add: docs_layers docs_config_loaded defaultConfig_def)
qed




section \<open>Local copy\<close>

lemma andThen_fst:
  "fst (andThen m f) = fst m @ (case snd m of Inl e \<Rightarrow> [] | Inr x \<Rightarrow> fst (f x))"
  by (auto simp: andThen_def split: prod.splits sum.splits)

lemma andThen_snd:
  "snd (andThen m f) = (case snd m of Inl e \<Rightarrow> Inl e | Inr x \<Rightarrow> snd (f x))"
  by (auto simp: andThen_def split: prod.splits sum.splits)

lemma tryCatch_snd:
  "snd (tryCatch m h) = (case snd m of Inl e \<Rightarrow> snd (h e) | Inr x \<Rightarrow> Inr x)"
  by (auto simp: tryCatch_def split: prod.splits sum.splits)

lemma copy_files_result:
  "snd (copy_files w files) = (if list_all (file_ok w) files then Inr () else Inl FsError)"
  by (induction files) (auto simp: andThen_snd eff_def file_ok_def)

lemma copy_files_calls:
  "copy_calls (fst (copy_files w files)) =
     takeWhile (file_ok w) files @
     (case dropWhile (file_ok w) files of [] \<Rightarrow> [] | g # rest \<Rightarrow> if b_mkdir_ok w g then [g] else [])"
  by (induction files) (auto simp: andThen_fst eff_def file_ok_def copy_calls_def)

lemma copy_files_quiet: "filter is_success_log (fst (copy_files w files)) = []"
  by (induction files) (auto simp: andThen_fst eff_def is_success_log_def)

lemma copy_pass_fails:
  assumes "b_glob w = Some files" and "\<not> list_all (file_ok w) files"
  shows "snd (copyIncludedDir cfg w) = Inl FsError"
    and "filter is_success_log (fst (copyIncludedDir cfg w)) = []"
    and "copy_calls (fst (copyIncludedDir cfg w)) = copy_calls (fst (copy_files w files))"
  using assms
  by (simp_all add: copyIncludedDir_def tryCatch_snd tryCatch_fst andThen_snd andThen_fst
      copy_files_result copy_files_quiet is_success_log_def copy_calls_def)

lemma prepare_copy_fails:
  assumes "\<not> truthy (gitUrl cfg)" and "truthy (includeDir cfg)"
    and "b_glob w = Some files" and "\<not> list_all (file_ok w) files"
  shows "isl (snd (prepareDataDir cfg w))"
    and "filter is_success_log (fst (prepareDataDir cfg w)) = []"
  using assms copy_pass_fails [OF assms(3,4), of cfg]
  by (simp_all add: prepareDataDir_def andThen_snd andThen_fst eff_def is_success_log_def)

lemma createDefaultConfig_quiet: "filter is_success_log (fst (createDefaultConfig w)) = []"
  by (simp add: createDefaultConfig_def eff_def is_success_log_def)

lemma build_copy_fails:
  assumes "\<not> truthy (gitUrl cfg)" and "truthy (includeDir cfg)"
    and "b_glob w = Some files" and "\<not> list_all (file_ok w) files"
  shows "snd (build cfg w) = BuildExited 1 \<and> filter is_success_log (fst (build cfg w)) = []"
proof -
  let ?rest = "\<lambda>u::unit.
        andThen (if enableBuildCleanup cfg then cleanupDataDir w else ([], Inr ())) (\<lambda>_.
        andThen (eff Chmod (b_chmod_ok w) FsError) (\<lambda>_.
        ([LogBuildFinished], Inr ())))"
  let ?chain = "andThen (createDefaultConfig w) (\<lambda>_. andThen (prepareDataDir cfg w) ?rest)"
  note p = prepare_copy_fails [OF assms]
  from p(1) obtain e where e: "snd (prepareDataDir cfg w) = Inl e"
    by (cases "snd (prepareDataDir cfg w)") auto
  have s: "isl (snd ?chain)"
    by (simp add: andThen_snd e split: sum.splits)
  have q: "filter is_success_log (fst ?chain) = []"
    by (simp add: andThen_fst e p(2) createDefaultConfig_quiet split: sum.splits)
  obtain ev err where c: "?chain = (ev, Inl err)"
    using s by (cases ?chain; cases "snd ?chain") auto
  have b: "build cfg w = (ev @ [LogBuildFailed], BuildExited 1)"
    unfolding build_def c by simp
  from q c have "filter is_success_log ev = []" by simp
  then show ?thesis by (simp add: b is_success_log_def)
qed

text \<open>
  C8.  When a file of the copy pass fails (its directory cannot be made or the copy
  itself fails), \<open>copyIncludedDir\<close> throws: the files before the first failing one have
  been copied, the failing one has been tried, and no later file is touched.  Neither
  the success line of the copy nor that of the build is logged, and the build exits
  with status 1.
\<close>

theorem copy_fails_fast:
  assumes "b_glob w = Some files" and "f \<in> set files" and "\<not> file_ok w f"
  shows "snd (copyIncludedDir cfg w) = Inl FsError \<and>
         filter is_success_log (fst (copyIncludedDir cfg w)) = [] \<and>
         copy_calls (fst (copyIncludedDir cfg w)) =
           takeWhile (file_ok w) files @
           (case dropWhile (file_ok w) files of
              [] \<Rightarrow> [] | g # rest \<Rightarrow> if b_mkdir_ok w g then [g] else []) \<and>
         (truthy (includeDir cfg) \<and> \<not> truthy (gitUrl cfg) \<longrightarrow>
            snd (build cfg w) = BuildExited 1 \<and>
            filter is_success_log (fst (build cfg w)) = [])"
proof -
  from assms(2,3) have n: "\<not> list_all (file_ok w) files"
    by (auto simp: list_all_iff)
  note c = copy_pass_fails [OF assms(1) n, of cfg]
  show ?thesis
    using c build_copy_fails [OF _ _ assms(1) n, of cfg]
    by (simp add: copy_files_calls)
qed

theorem copy_fails_fast_witness:
  "b_glob copy_env = Some [''a.md'', ''b.md'', ''c.md''] \<and> \<not> file_ok copy_env ''b.md'' \<and>
   snd (copyIncludedDir docs_config copy_env) = Inl FsError \<and>
   copy_calls (fst (copyIncludedDir docs_config copy_env)) = [''a.md'', ''b.md''] \<and>
   snd (build docs_config copy_env) = BuildExited 1 \<and>
   filter is_success_log (fst (build docs_config copy_env)) = []"
proof -
  have h1: "b_glob copy_env = Some [''a.md'', ''b.md'', ''c.md'']" by (simp add: copy_env_def)
  have h2: "''b.md'' \<in> set [''a.md'', ''b.md'', ''c.md'']" by simp
  have h3: "\<not> file_ok copy_env ''b.md''" by (simp add: file_ok_def copy_env_def)
  have k: "file_ok copy_env ''a.md''" "b_mkdir_ok copy_env ''b.md''"
    by (simp_all add: file_ok_def copy_env_def build_env_def)
  have c: "truthy (includeDir docs_config)" "\<not> truthy (gitUrl docs_config)"
    by (simp_all add: docs_config_def defaultConfig_def truthy_str_def)
  show ?thesis
    using copy_fails_fast [OF h1 h2 h3, of docs_config] h1 h3 k c
    by simp
qed

section \<open>The tool handler: a call without query\<close>

lemma map_of_rev_none: "k \<notin> set (map fst kvs) \<Longrightarrow> map_of (rev kvs) k = None"
  by (simp add: map_of_eq_None_iff)

lemma call_try_lacking:
  assumes "lacks_query (r_arguments req)"
  shows "call_try cfg search req =
           Inl (if r_arguments req = None then ''Arguments must be an object''
                else ''Query is required in arguments'')"
proof (cases "r_arguments req")
  case None
  then show ?thesis by (simp add: call_try_def)
next
  case (Some v)
  with assms show ?thesis
    by (cases v) (simp_all add: call_try_def map_of_rev_none)
qed

lemma lacks_query_schema: "lacks_query (r_arguments req) \<Longrightarrow> schema_ok req"
proof (cases "r_arguments req")
  case None
  then show ?thesis by (simp add: schema_ok_def)
next
  case (Some v)
  assume "lacks_query (r_arguments req)"
  with Some show ?thesis by (cases v) (simp_all add: schema_ok_def)
qed

lemma serve_call:
  "serve cfg search (Call req # ms) (Serving, p) =
     (answer cfg search req # fst (serve cfg search ms (Serving, p)),
      snd (serve cfg search ms (Serving, p)))"
  by (simp split: prod.splits)

text \<open>
  C9, as the code has it.  A call addressed to the configured tool whose arguments are
  missing, or are an object without a query, reaches the handler, which does not throw:
  it returns a response that has \<open>isError\<close> set and carries the message of the
  validation, and that response is the answer of the server.  The process is serving
  afterwards as before: the messages that follow are handled from the same state, and a
  call that follows is answered.
\<close>

theorem missing_query_is_tool_error:
  assumes "VStr (r_name req) = toolName cfg" and "lacks_query (r_arguments req)"
  shows "callTool cfg search req =
           Returns \<lparr> content_text =
                       ''Error executing '' @ r_name req @ '': '' @
                       (if r_arguments req = None then ''Arguments must be an object''
                        else ''Query is required in arguments''),
                     isError = True \<rparr> \<and>
         answer cfg search req =
           ToolResult \<lparr> content_text =
                          ''Error executing '' @ r_name req @ '': '' @
                          (if r_arguments req = None then ''Arguments must be an object''
                           else ''Query is required in arguments''),
                        isError = True \<rparr> \<and>
         serve cfg search (Call req # ms) (Serving, p) =
           (answer cfg search req # fst (serve cfg search ms (Serving, p)),
            snd (serve cfg search ms (Serving, p))) \<and>
         serve cfg search [Call req, Call next] (Serving, p) =
           ([answer cfg search req, answer cfg search next], (Serving, p))"
proof -
  have c: "callTool cfg search req =
           Returns \<lparr> content_text =
                       ''Error executing '' @ r_name req @ '': '' @
                       (if r_arguments req = None then ''Arguments must be an object''
                        else ''Query is required in arguments''),
                     isError = True \<rparr>"
    using assms(1) by (simp add: callTool_def call_try_lacking [OF assms(2)])
  have a: "answer cfg search req =
           ToolResult \<lparr> content_text =
                          ''Error executing '' @ r_name req @ '': '' @
                          (if r_arguments req = None then ''Arguments must be an object''
                           else ''Query is required in arguments''),
                        isError = True \<rparr>"
    using lacks_query_schema [OF assms(2)] by (simp add: answer_def c)
  have s: "serve cfg search [Call req, Call next] (Serving, p) =
           ([answer cfg search req, answer cfg search next], (Serving, p))"
    by simp
  from c a s serve_call [of cfg search req ms p] show ?thesis by blast
qed

theorem missing_query_is_tool_error_witness:
  "VStr (r_name empty_call) = toolName demo_config \<and> lacks_query (r_arguments empty_call) \<and>
   serve demo_config echo_search [Call empty_call, Call good_call] (Serving, initial_proc) =
     ([ToolResult \<lparr> content_text = ''Error executing search_docs: Query is required in arguments'',
                    isError = True \<rparr>,
       ToolResult \<lparr> content_text = ''result text'', isError = False \<rparr>],
      (Serving, initial_proc))"
proof -
  have h1: "VStr (r_name empty_call) = toolName demo_config"
    by (simp add: empty_call_def demo_config_def defaultConfig_def)
  have h2: "lacks_query (r_arguments empty_call)" by (simp add: empty_call_def)
  have n: "r_name empty_call = ''search_docs''" "r_arguments empty_call \<noteq> None"
    by (simp_all add: empty_call_def)
  have g: "answer demo_config echo_search good_call =
             ToolResult \<lparr> content_text = ''result text'', isError = False \<rparr>"
    by (simp add: answer_def schema_ok_def callTool_def call_try_def good_call_def
        demo_config_def defaultConfig_def executeDocsSearch_def echo_search_def)
  show ?thesis
    using missing_query_is_tool_error [OF h1 h2, of echo_search "[Call good_call]" initial_proc good_call]
      h1 h2
    by (simp add: n g)
qed

text \<open>
  C9 as stated fails for arguments that are present and no object: such a call does not
  parse against the request schema, and the server answers it with an error of the
  protocol before the handler runs, not with a tool response.
\<close>

theorem string_arguments_rejected:
  "VStr (r_name string_call) = toolName demo_config \<and> no_object (r_arguments string_call) \<and>
   answer demo_config echo_search string_call = SchemaError \<and>
   serve demo_config echo_search [Call string_call, Call good_call] (Serving, initial_proc) =
     ([SchemaError, ToolResult \<lparr> content_text = ''result text'', isError = False \<rparr>],
      (Serving, initial_proc))"
proof -
  have h1: "VStr (r_name string_call) = toolName demo_config"
    by (simp add: string_call_def demo_config_def defaultConfig_def)
  have h2: "no_object (r_arguments string_call)" by (simp add: string_call_def)
  have a: "answer demo_config echo_search string_call = SchemaError"
    by (simp add: answer_def schema_ok_def string_call_def)
  have g: "answer demo_config echo_search good_call =
             ToolResult \<lparr> content_text = ''result text'', isError = False \<rparr>"
    by (simp add: answer_def schema_ok_def callTool_def call_try_def good_call_def
        demo_config_def defaultConfig_def executeDocsSearch_def echo_search_def)
  show ?thesis using h1 h2 by (simp add: a g)
qed

section \<open>A non-numeric update interval\<close>

lemma parseInt_no_digit: "no_leading_digit s \<Longrightarrow> parseInt s = NaN"
  by (cases "strip_sign (skip_ws s)"; cases "snd (strip_sign (skip_ws s))")
     (auto simp: parseInt_def no_leading_digit_def)

lemma start_ref_interval: "start_ref (cfg\<lparr>autoUpdateInterval := i\<rparr>) = start_ref cfg"
  by (simp add: start_ref_def)

lemma clone_interval:
  "fallbackToClone (cfg\<lparr>autoUpdateInterval := i\<rparr>) w = fallbackToClone cfg w"
  "cloneGitRepo (cfg\<lparr>autoUpdateInterval := i\<rparr>) w = cloneGitRepo cfg w"
  by (simp_all add: clone_last cloneGitRepo_def)

lemma update_try_interval: "update_try (cfg\<lparr>autoUpdateInterval := i\<rparr>) ce = update_try cfg ce"
  by (auto simp: update_try_def split: option.splits bool.splits)

lemma fetch_rt_interval:
  "downloadAndExtractTarballRuntime (cfg\<lparr>autoUpdateInterval := i\<rparr>) att =
   downloadAndExtractTarballRuntime cfg att"
  by (simp add: downloadAndExtractTarballRuntime_def start_ref_interval
      split: jsval.splits option.splits prod.splits cong: if_cong)

lemma fetch_build_interval:
  "downloadAndExtractTarball (cfg\<lparr>autoUpdateInterval := i\<rparr>) w = downloadAndExtractTarball cfg w"
  by (simp add: downloadAndExtractTarball_def start_ref_interval clone_interval
      split: jsval.splits option.splits prod.splits cong: if_cong)

lemma init_content_interval:
  assumes "\<not> gt_zero (autoUpdateInterval cfg)" and "\<not> gt_zero i"
  shows "init_content (cfg\<lparr>autoUpdateInterval := i\<rparr>) ov pre w st = init_content cfg ov pre w st"
  using assms by (simp add: init_content_def init_tarball_def fetch_rt_interval)

lemma run_interval:
  assumes "\<not> gt_zero (autoUpdateInterval cfg)" and "\<not> gt_zero i"
  shows "run (cfg\<lparr>autoUpdateInterval := i\<rparr>) a e w st = run cfg a e w st"
  by (simp add: run_def init_content_interval [OF assms])

lemma build_interval:
  assumes "\<not> gt_zero (autoUpdateInterval cfg)" and "\<not> gt_zero i"
  shows "build (cfg\<lparr>autoUpdateInterval := i\<rparr>) w = build cfg w"
proof -
  have "prepareDataDir (cfg\<lparr>autoUpdateInterval := i\<rparr>) w = prepareDataDir cfg w"
    using assms by (simp add: prepareDataDir_def fetch_build_interval copyIncludedDir_def clone_interval)
  then show ?thesis by (simp add: build_def)
qed

lemma check_interval:
  assumes "\<not> gt_zero (autoUpdateInterval cfg)" and "\<not> gt_zero i"
  shows "checkForUpdates (cfg\<lparr>autoUpdateInterval := i\<rparr>) ce st = checkForUpdates cfg ce st"
  using assms by (simp add: checkForUpdates_def update_try_interval)

lemma check_no_timer:
  assumes "\<not> gt_zero (autoUpdateInterval cfg)"
  shows "filter is_SetTimeout (fst (checkForUpdates cfg ce st)) = [] \<and>
         pending (snd (checkForUpdates cfg ce st)) = pending st"
proof (cases "truthy (gitUrl cfg) \<and> git st")
  case True
  then show ?thesis
    using assms checkForUpdates_timers [of cfg st ce] checkForUpdates_state [of cfg st ce]
    by simp
next
  case False
  then show ?thesis by (auto simp: checkForUpdates_def)
qed

lemma attempt_rt_quiet:
  "filter is_SetTimeout (fst (downloadAttempt_rt owner repo att r)) = [] \<and>
   filter is_git_event (fst (downloadAttempt_rt owner repo att r)) = []"
  by (simp add: downloadAttempt_rt_eq is_SetTimeout_def is_git_event_def split: http_result.splits)

lemma fetch_rt_quiet:
  "filter is_SetTimeout (fst (downloadAndExtractTarballRuntime cfg att)) = [] \<and>
   filter is_git_event (fst (downloadAndExtractTarballRuntime cfg att)) = []"
  by (simp add: downloadAndExtractTarballRuntime_def tryCatch_fst attempt_rt_quiet
      split: jsval.splits option.splits prod.splits sum.splits)

lemma clear_timer_quiet:
  "filter is_SetTimeout (fst (clear_timer st)) = [] \<and>
   filter is_git_event (fst (clear_timer st)) = []"
  by (simp add: clear_timer_def is_SetTimeout_def is_git_event_def split: option.splits)

lemma check_prebuilt_silent:
  "filter is_SetTimeout (fst (check_prebuilt ov w)) = [] \<and>
   filter is_git_event (fst (check_prebuilt ov w)) = []"
  by (simp add: check_prebuilt_def is_SetTimeout_def is_git_event_def split: option.splits)

lemma init_tarball_quiet:
  "filter is_SetTimeout (fst (init_tarball cfg w st)) = [] \<and>
   filter is_git_event (fst (init_tarball cfg w st)) = []"
  using fetch_rt_quiet [of cfg "w_attempt w"] clear_timer_quiet [of st]
  by (cases "downloadAndExtractTarballRuntime cfg (w_attempt w)"; cases "clear_timer st")
     (auto simp: init_tarball_def split: sum.splits)

lemma init_content_quiet:
  assumes "\<not> gt_zero (autoUpdateInterval cfg)"
  shows "filter is_SetTimeout (fst (init_content cfg ov pre w st)) = [] \<and>
         filter is_git_event (fst (init_content cfg ov pre w st)) = []"
  using assms init_tarball_quiet [of cfg w st] clear_timer_quiet [of st]
  by (cases "clear_timer st") (simp add: init_content_def)

lemma run_quiet:
  assumes "\<not> gt_zero (autoUpdateInterval cfg)"
  shows "filter is_SetTimeout (fst (run cfg a e w st)) = [] \<and>
         filter is_git_event (fst (run cfg a e w st)) = []"
proof -
  obtain ev1 pre where c: "check_prebuilt (runtimeOverride a e) w = (ev1, pre)"
    by (cases "check_prebuilt (runtimeOverride a e) w") auto
  obtain ev2 r st' where i: "init_content cfg (runtimeOverride a e) pre w st = (ev2, r, st')"
    by (cases "init_content cfg (runtimeOverride a e) pre w st") auto
  have q1: "filter is_SetTimeout ev1 = [] \<and> filter is_git_event ev1 = []"
    using check_prebuilt_silent [of "runtimeOverride a e" w] c by simp
  have q2: "filter is_SetTimeout ev2 = [] \<and> filter is_git_event ev2 = []"
    using init_content_quiet [OF assms, of "runtimeOverride a e" pre w st] i by simp
  show ?thesis
    using q1 q2
    by (cases r) (simp_all add: run_def c i is_SetTimeout_def is_git_event_def)
qed

lemma interval_from_string:
  assumes "a_autoUpdateInterval a = Some (VStr s) \<or>
           (a_autoUpdateInterval a = None \<and> e_AUTO_UPDATE_INTERVAL e = Some s \<and> s \<noteq> [])"
    and "snd (loadConfig pkgData cwd a e cf) = Inr cfg"
  shows "autoUpdateInterval cfg = parseInt s"
  using assms(1)
  by (auto simp: resolved_fields(3) [OF assms(2)] merged_def apply_args_fields apply_env_fields
      set_str_def parseInt_arg_def)

text \<open>
  C10, as the code has it.  When the interval comes from a command-line string, or from
  a non-empty environment variable with no command-line flag, and the string has no
  leading integer (after white space and an optional sign there is no digit), then
  \<open>parseInt\<close> gives \<open>NaN\<close>, which becomes the interval of the settings returned, and
  server and build behave as with the interval 0: same effects, same outcome, same
  state.  No timer is armed and no Git operation runs at server start; a repository is
  fetched as an archive; an update cycle, were it run, would arm nothing.
\<close>

theorem nan_interval_disables_updates:
  assumes "a_autoUpdateInterval a = Some (VStr s) \<or>
           (a_autoUpdateInterval a = None \<and> e_AUTO_UPDATE_INTERVAL e = Some s \<and> s \<noteq> [])"
    and "no_leading_digit s"
    and "snd (loadConfig pkgData cwd a e cf) = Inr cfg"
  shows "parseInt s = NaN \<and> autoUpdateInterval cfg = NaN \<and>
         run cfg a e w st = run (cfg\<lparr>autoUpdateInterval := Num 0\<rparr>) a e w st \<and>
         build cfg bw = build (cfg\<lparr>autoUpdateInterval := Num 0\<rparr>) bw \<and>
         checkForUpdates cfg ce st = checkForUpdates (cfg\<lparr>autoUpdateInterval := Num 0\<rparr>) ce st \<and>
         filter is_SetTimeout (fst (run cfg a e w st)) = [] \<and>
         filter is_git_event (fst (run cfg a e w st)) = [] \<and>
         filter is_SetTimeout (fst (checkForUpdates cfg ce st)) = [] \<and>
         (truthy (gitUrl cfg) \<longrightarrow>
            init_content cfg (runtimeOverride a e) False w st = init_tarball cfg w st)"
proof -
  have p: "parseInt s = NaN" by (rule parseInt_no_digit [OF assms(2)])
  have i: "autoUpdateInterval cfg = NaN"
    using interval_from_string [OF assms(1) assms(3)] p by simp
  then have n: "\<not> gt_zero (autoUpdateInterval cfg)" by simp
  have z: "\<not> gt_zero (Num 0)" by simp
  show ?thesis
    using p i run_interval [OF n z, of a e w st] build_interval [OF n z, of bw]
      check_interval [OF n z, of ce st] run_quiet [OF n, of a e w st] check_no_timer [OF n, of ce st]
    by (simp add: init_content_def)
qed

lemma often_config:
  "loadConfig ''/srv/pkg/data'' ''/home/u'' no_args env_often file_repo =
     ([LogLoaded],
      Inr ((defaultConfig ''/srv/pkg/data'')
             \<lparr> gitUrl := VStr ''https://github.com/acme/docs'', autoUpdateInterval := NaN \<rparr>))"
  by code_simp

theorem nan_interval_disables_updates_witness:
  "a_autoUpdateInterval no_args = None \<and> e_AUTO_UPDATE_INTERVAL env_often = Some ''often'' \<and>
   no_leading_digit ''often'' \<and>
   snd (loadConfig ''/srv/pkg/data'' ''/home/u'' no_args env_often file_repo) =
     Inr ((defaultConfig ''/srv/pkg/data'')
            \<lparr> gitUrl := VStr ''https://github.com/acme/docs'', autoUpdateInterval := NaN \<rparr>) \<and>
   run ((defaultConfig ''/srv/pkg/data'')
            \<lparr> gitUrl := VStr ''https://github.com/acme/docs'', autoUpdateInterval := NaN \<rparr>)
       no_args env_often (fetch_world main_missing) initial_proc =
   run ((defaultConfig ''/srv/pkg/data'')
            \<lparr> gitUrl := VStr ''https://github.com/acme/docs'', autoUpdateInterval := NaN,
              autoUpdateInterval := Num 0 \<rparr>)
       no_args env_often (fetch_world main_missing) initial_proc \<and>
   filter is_SetTimeout
     (fst (run ((defaultConfig ''/srv/pkg/data'')
            \<lparr> gitUrl := VStr ''https://github.com/acme/docs'', autoUpdateInterval := NaN \<rparr>)
            no_args env_often (fetch_world main_missing) initial_proc)) = []"
proof -
  have h1: "a_autoUpdateInterval no_args = Some (VStr ''often'') \<or>
           (a_autoUpdateInterval no_args = None \<and> e_AUTO_UPDATE_INTERVAL env_often = Some ''often'' \<and>
            ''often'' \<noteq> [])"
    by (simp add: no_args_def env_often_def)
  have h2: "no_leading_digit ''often''"
    by (simp add: no_leading_digit_def strip_sign_def is_ws_def is_ws2_def is_ws3_def is_digit_def)
  have h3: "snd (loadConfig ''/srv/pkg/data'' ''/home/u'' no_args env_often file_repo) =
     Inr ((defaultConfig ''/srv/pkg/data'')
            \<lparr> gitUrl := VStr ''https://github.com/acme/docs'', autoUpdateInterval := NaN \<rparr>)"
    by (simp add: often_config)
  have k: "a_autoUpdateInterval no_args = None" "e_AUTO_UPDATE_INTERVAL env_often = Some ''often''"
    by (simp_all add: no_args_def env_often_def)
  show ?thesis
    using nan_interval_disables_updates [OF h1 h2 h3, of "fetch_world main_missing" initial_proc
        "build_env main_missing" ok_cycle]
      h2 h3 k
    by blast
qed

lemma five_min_config:
  "loadConfig ''/srv/pkg/data'' ''/home/u'' no_args env_5min file_repo =
     ([LogLoaded],
      Inr ((defaultConfig ''/srv/pkg/data'')
             \<lparr> gitUrl := VStr ''https://github.com/acme/docs'', autoUpdateInterval := Num 5 \<rparr>))"
  by code_simp

text \<open>
  C10 as stated fails for a non-numeric string that begins with digits: \<open>5min\<close> is read
  as 5, the repository is cloned and a timer of five minutes is armed.
\<close>

theorem interval_5min_arms_timer:
  "\<not> numeric_string ''5min'' \<and> parseInt ''5min'' = Num 5 \<and>
   snd (loadConfig ''/srv/pkg/data'' ''/home/u'' no_args env_5min file_repo) =
     Inr ((defaultConfig ''/srv/pkg/data'')
            \<lparr> gitUrl := VStr ''https://github.com/acme/docs'', autoUpdateInterval := Num 5 \<rparr>) \<and>
   run ((defaultConfig ''/srv/pkg/data'')
          \<lparr> gitUrl := VStr ''https://github.com/acme/docs'', autoUpdateInterval := Num 5 \<rparr>)
       no_args env_5min (fetch_world main_missing) initial_proc =
     ([ExistsSync, Readdir, GitCheckIsRepo, EmptyDir,
       GitClone (VStr ''https://github.com/acme/docs'') (VStr ''main'') 1,
       GitCheckIsRepo, GitFetch, GitStatus, LogUpToDate, SetTimeout 300000, Connect],
      Serving,
      \<lparr> updateTimer = Some 0, pending = [(0, 300000)], next_handle = 1, git = True \<rparr>)"
proof -
  have a: "\<not> numeric_string ''5min''" by code_simp
  have b: "parseInt ''5min'' = Num 5" by code_simp
  have c: "run ((defaultConfig ''/srv/pkg/data'')
        \<lparr> gitUrl := VStr ''https://github.com/acme/docs'', autoUpdateInterval := Num 5 \<rparr>)
          no_args env_5min (fetch_world main_missing) initial_proc =
     ([ExistsSync, Readdir, GitCheckIsRepo, EmptyDir,
      GitClone (VStr ''https://github.com/acme/docs'') (VStr ''main'') 1,
      GitCheckIsRepo, GitFetch, GitStatus, LogUpToDate, SetTimeout 300000, Connect],
      Serving,
      \<lparr> updateTimer = Some 0, pending = [(0, 300000)], next_handle = 1, git = True \<rparr>)"
    by code_simp
  show ?thesis using a b c by (simp add: five_min_config)
qed


end
